theory Spec2Isabelle
  imports Main
begin

section \<open>Exceptions\<close>

text \<open>
  Exceptions are values: a function that can raise returns \<open>error + 'a\<close>, with \<open>Inl\<close> for
  the exception. \<^verbatim>\<open>SyntaxError\<close> carries the character, line and column of the lexer's
  message and \<^verbatim>\<open>NameError\<close> the name of the lowerer's message; the others are raised by
  the interpreter (\<^verbatim>\<open>TypeError\<close>, \<^verbatim>\<open>ValueError\<close>, \<^verbatim>\<open>AttributeError\<close>, \<^verbatim>\<open>IndexError\<close>, \<^verbatim>\<open>KeyError\<close>,
  \<^verbatim>\<open>AssertionError\<close>) or by the IR library (\<^verbatim>\<open>DuplicatedNameError\<close>).
\<close>

datatype error =
    SyntaxError char nat nat
  | TypeError
  | ValueError
  | AttributeError
  | IndexError
  | KeyError
  | AssertionError
  | NameError string
  | NotImplementedError
  | DuplicatedNameError string

section \<open>The type model (frontend/types.py)\<close>

text \<open>
  \<^verbatim>\<open>TypeKind\<close> is the enumeration of the type checker (\<^verbatim>\<open>TypeKind.INT\<close> is \<open>TK_INT\<close>); \<^verbatim>\<open>Type\<close> is its dataclass,
  with the optional fields as options (Python's \<^verbatim>\<open>None\<close> is \<open>None\<close>).
\<close>

datatype TypeKind =
  TK_INT | TK_FLOAT | TK_STRING | TK_BOOL | TK_VOID | TK_NULL | TK_AUTO | TK_ARRAY | TK_FUNCTION | TK_CLASS | TK_TRAIT | TK_GENERIC

datatype vtype = Type
  (kind: TypeKind)
  (name: string)
  (element_type: "vtype option")
  (param_types: "vtype list option")
  (return_type: "vtype option")
  (generic_params: "string list option")

text \<open>
  \<^verbatim>\<open>Type.__eq__\<close>: the kinds are compared first; arrays compare their element types,
  functions their parameter lists and return types, every other kind its name. The
  comparisons of the optional fields are Python's \<^verbatim>\<open>==\<close> on \<^verbatim>\<open>Optional[Type]\<close> and on
  \<^verbatim>\<open>Optional[List[Type]]\<close>: \<^verbatim>\<open>None\<close> equals only \<^verbatim>\<open>None\<close>, lists are equal when they
  have the same length and equal elements.
\<close>

fun type_eq :: "vtype \<Rightarrow> vtype \<Rightarrow> bool"
  and type_opt_eq :: "vtype option \<Rightarrow> vtype option \<Rightarrow> bool"
  and type_list_eq :: "vtype list \<Rightarrow> vtype list \<Rightarrow> bool"
  and type_list_opt_eq :: "vtype list option \<Rightarrow> vtype list option \<Rightarrow> bool"
where
  "type_eq (Type k n e ps r g) (Type k' n' e' ps' r' g') =
     (if k \<noteq> k' then False
      else if k = TK_ARRAY then type_opt_eq e e'
      else if k = TK_FUNCTION then (type_list_opt_eq ps ps' \<and> type_opt_eq r r')
      else n = n')"
| "type_opt_eq None None = True"
| "type_opt_eq (Some a) (Some b) = type_eq a b"
| "type_opt_eq None (Some b) = False"
| "type_opt_eq (Some a) None = False"
| "type_list_eq [] [] = True"
| "type_list_eq (a # as) (b # bs) = (type_eq a b \<and> type_list_eq as bs)"
| "type_list_eq [] (b # bs) = False"
| "type_list_eq (a # as) [] = False"
| "type_list_opt_eq None None = True"
| "type_list_opt_eq (Some as) (Some bs) = type_list_eq as bs"
| "type_list_opt_eq None (Some bs) = False"
| "type_list_opt_eq (Some as) None = False"

text \<open>The predefined primitive types.\<close>

definition INT_TYPE :: vtype where "INT_TYPE = Type TK_INT ''int'' None None None None"
definition FLOAT_TYPE :: vtype where "FLOAT_TYPE = Type TK_FLOAT ''float'' None None None None"
definition STRING_TYPE :: vtype where "STRING_TYPE = Type TK_STRING ''str'' None None None None"
definition BOOL_TYPE :: vtype where "BOOL_TYPE = Type TK_BOOL ''bool'' None None None None"
definition VOID_TYPE :: vtype where "VOID_TYPE = Type TK_VOID ''void'' None None None None"
definition NULL_TYPE :: vtype where "NULL_TYPE = Type TK_NULL ''null'' None None None None"
definition AUTO_TYPE :: vtype where "AUTO_TYPE = Type TK_AUTO ''auto'' None None None None"

lemmas prim_type_defs =
  INT_TYPE_def FLOAT_TYPE_def STRING_TYPE_def BOOL_TYPE_def VOID_TYPE_def NULL_TYPE_def
  AUTO_TYPE_def

text \<open>\<^verbatim>\<open>TypeChecker.parse_type_string\<close>.\<close>

definition parse_type_string :: "string \<Rightarrow> vtype" where
  "parse_type_string type_str =
     (if type_str = ''int'' then INT_TYPE
      else if type_str = ''float'' then FLOAT_TYPE
      else if type_str = ''str'' then STRING_TYPE
      else if type_str = ''bool'' then BOOL_TYPE
      else if type_str = ''void'' then VOID_TYPE
      else if type_str = ''auto'' then AUTO_TYPE
      else Type TK_CLASS type_str None None None None)"

text \<open>\<^verbatim>\<open>TypeChecker.can_assign\<close>, branch by branch.\<close>

definition can_assign :: "vtype \<Rightarrow> vtype \<Rightarrow> bool" where
  "can_assign target source =
     (if kind target = TK_AUTO then True
      else if type_eq target source then True
      else if kind source = TK_NULL then kind target \<in> set [TK_CLASS, TK_STRING, TK_ARRAY]
      else if kind target = TK_FLOAT \<and> kind source = TK_INT then True
      else False)"


section \<open>The lexer (frontend/lexer.py)\<close>


text \<open>\<^verbatim>\<open>TokenType\<close>: \<^verbatim>\<open>TokenType.NUMBER\<close> is \<open>TT_NUMBER\<close>, and so on.\<close>

datatype (plugins only: code) TokenType =
    TT_NUMBER | TT_STRING | TT_BOOLEAN | TT_NULL
  | TT_IDENTIFIER
  | TT_FUNC | TT_RETURN | TT_IF | TT_ELSE | TT_WHILE | TT_FOR | TT_IN | TT_BREAK | TT_CONTINUE
  | TT_INT | TT_FLOAT | TT_STR | TT_BOOL | TT_VOID | TT_AUTO
  | TT_ASYNC | TT_AWAIT | TT_PARALLEL | TT_PIPE | TT_MATCH | TT_WITH | TT_IMPORT | TT_FROM
  | TT_AS | TT_CLASS | TT_TRAIT | TT_IMPL
  | TT_PLUS | TT_MINUS | TT_MULTIPLY | TT_DIVIDE | TT_MODULO | TT_POWER | TT_ASSIGN
  | TT_PLUS_ASSIGN | TT_MINUS_ASSIGN | TT_EQ | TT_NEQ | TT_LT | TT_GT | TT_LTE | TT_GTE
  | TT_AND | TT_OR | TT_NOT | TT_ARROW | TT_FAT_ARROW | TT_PIPELINE
  | TT_LPAREN | TT_RPAREN | TT_LBRACE | TT_RBRACE | TT_LBRACKET | TT_RBRACKET | TT_COMMA
  | TT_SEMICOLON | TT_COLON | TT_DOT | TT_QUESTION
  | TT_NEWLINE | TT_EOF | TT_COMMENT

text \<open>
  The payload of a token (\<^verbatim>\<open>Token.value\<close>, of type \<^verbatim>\<open>any\<close>): an int, a float, a string,
  a bool or \<^verbatim>\<open>None\<close>. Python's ints are unbounded, so \<open>IntVal\<close> carries an \<open>int\<close>. A
  float is kept as the text it was read from: no property below depends on its value.
\<close>

datatype tok_value =
    IntVal int
  | FloatVal string
  | StrVal string
  | BoolVal bool
  | NoneVal

datatype token = Token TokenType tok_value nat nat

text \<open>
  The mutable fields of \<^verbatim>\<open>Lexer\<close>, passed explicitly. The source is a list of characters of
  type \<open>char\<close>: the code points \<^verbatim>\<open>U+0000\<close> to \<^verbatim>\<open>U+00FF\<close>. The lexer is modelled on the
  sources made of these characters.
\<close>

record lexer =
  source :: string
  pos :: nat
  line :: nat
  column :: nat
  tokens :: "token list"

definition Lexer :: "string \<Rightarrow> lexer" where
  "Lexer src = \<lparr>source = src, pos = 0, line = 1, column = 1, tokens = []\<rparr>"

definition keywords_table :: "(string \<times> TokenType) list" where
  "keywords_table =
    [(''func'', TT_FUNC), (''return'', TT_RETURN), (''if'', TT_IF), (''else'', TT_ELSE),
     (''while'', TT_WHILE), (''for'', TT_FOR), (''in'', TT_IN), (''break'', TT_BREAK),
     (''continue'', TT_CONTINUE), (''int'', TT_INT), (''float'', TT_FLOAT), (''str'', TT_STR),
     (''bool'', TT_BOOL), (''void'', TT_VOID), (''auto'', TT_AUTO), (''true'', TT_BOOLEAN),
     (''false'', TT_BOOLEAN), (''null'', TT_NULL), (''async'', TT_ASYNC), (''await'', TT_AWAIT),
     (''parallel'', TT_PARALLEL), (''match'', TT_MATCH), (''with'', TT_WITH),
     (''import'', TT_IMPORT), (''from'', TT_FROM), (''as'', TT_AS), (''class'', TT_CLASS),
     (''trait'', TT_TRAIT), (''impl'', TT_IMPL), (''and'', TT_AND), (''or'', TT_OR),
     (''not'', TT_NOT)]"

text \<open>
  Python's character tests on a one-character string, for the code points below 256.
  \<^verbatim>\<open>str.isdecimal\<close> holds of the ten digits \<^verbatim>\<open>0\<close> to \<^verbatim>\<open>9\<close>; \<^verbatim>\<open>str.isdigit\<close> also of the
  superscripts \<^verbatim>\<open>U+00B2\<close>, \<^verbatim>\<open>U+00B3\<close> and \<^verbatim>\<open>U+00B9\<close>; \<^verbatim>\<open>str.isnumeric\<close> also of the
  fractions \<^verbatim>\<open>U+00BC\<close> to \<^verbatim>\<open>U+00BE\<close>. \<^verbatim>\<open>str.isalpha\<close> holds of the ASCII letters, of
  \<^verbatim>\<open>U+00AA\<close>, \<^verbatim>\<open>U+00B5\<close>, \<^verbatim>\<open>U+00BA\<close> and of \<^verbatim>\<open>U+00C0\<close> to \<^verbatim>\<open>U+00FF\<close> but the two signs
  \<^verbatim>\<open>U+00D7\<close> and \<^verbatim>\<open>U+00F7\<close>. \<^verbatim>\<open>str.isalnum\<close> is the disjunction of the four.
\<close>

definition isdecimal :: "char \<Rightarrow> bool" where
  "isdecimal c = (c \<in> set ''0123456789'')"

definition isdigit :: "char \<Rightarrow> bool" where
  "isdigit c = (isdecimal c \<or> c \<in> set [CHR 0xB2, CHR 0xB3, CHR 0xB9])"

definition isnumeric :: "char \<Rightarrow> bool" where
  "isnumeric c = (isdigit c \<or> c \<in> set [CHR 0xBC, CHR 0xBD, CHR 0xBE])"

definition isalpha :: "char \<Rightarrow> bool" where
  "isalpha c =
     (c \<in> set ''abcdefghijklmnopqrstuvwxyzABCDEFGHIJKLMNOPQRSTUVWXYZ''
      \<or> c \<in> set [CHR 0xAA, CHR 0xB5, CHR 0xBA]
      \<or> (0xC0 \<le> (of_char c :: nat) \<and> c \<noteq> CHR 0xD7 \<and> c \<noteq> CHR 0xF7))"

definition isalnum :: "char \<Rightarrow> bool" where
  "isalnum c = (isalpha c \<or> isdecimal c \<or> isdigit c \<or> isnumeric c)"

definition current_char :: "lexer \<Rightarrow> char option" where
  "current_char L = (if pos L \<ge> length (source L) then None else Some (source L ! pos L))"

definition peek :: "lexer \<Rightarrow> nat \<Rightarrow> char option" where
  "peek L offset =
     (let p = pos L + offset in if p \<ge> length (source L) then None else Some (source L ! p))"

definition advance :: "lexer \<Rightarrow> lexer" where
  "advance L =
     (if pos L < length (source L) \<and> source L ! pos L = CHR 0x0A
      then L\<lparr>line := line L + 1, column := 1, pos := pos L + 1\<rparr>
      else L\<lparr>column := column L + 1, pos := pos L + 1\<rparr>)"

lemma advance_source [simp]: "source (advance L) = source L"
  by (simp add: advance_def)

lemma advance_pos [simp]: "pos (advance L) = Suc (pos L)"
  by (simp add: advance_def)

lemma advance_tokens [simp]: "tokens (advance L) = tokens L"
  by (simp add: advance_def)

lemma current_char_Some: "current_char L = Some c \<Longrightarrow> pos L < length (source L)"
  by (simp add: current_char_def split: if_splits)

text \<open>
  Each \<^verbatim>\<open>while\<close> loop of the lexer is a recursive function on the lexer state; it
  terminates because \<^verbatim>\<open>advance\<close> moves \<open>pos\<close> towards the end of the source.
\<close>

function skip_whitespace :: "lexer \<Rightarrow> lexer" where
  "skip_whitespace L =
     (case current_char L of
        None \<Rightarrow> L
      | Some c \<Rightarrow> if c \<in> set [CHR '' '', CHR 0x09, CHR 0x0D] then skip_whitespace (advance L) else L)"
  by pat_completeness auto
termination
  by (relation "measure (\<lambda>L. length (source L) - pos L)") (auto dest: current_char_Some)

declare skip_whitespace.simps [simp del]

function skip_comment_loop :: "lexer \<Rightarrow> lexer" where
  "skip_comment_loop L =
     (case current_char L of
        None \<Rightarrow> L
      | Some c \<Rightarrow> if c \<noteq> CHR 0x0A then skip_comment_loop (advance L) else L)"
  by pat_completeness auto
termination
  by (relation "measure (\<lambda>L. length (source L) - pos L)") (auto dest: current_char_Some)

declare skip_comment_loop.simps [simp del]

definition skip_comment :: "lexer \<Rightarrow> lexer" where
  "skip_comment L = (if current_char L = Some (CHR ''#'') then skip_comment_loop L else L)"

text \<open>
  \<^verbatim>\<open>int(num_str)\<close> and \<^verbatim>\<open>float(num_str)\<close> on the strings \<^verbatim>\<open>read_number\<close> can build
  (characters of \<^verbatim>\<open>str.isdigit\<close>, with at most one dot). Both accept the decimal digits
  only and raise \<^verbatim>\<open>ValueError\<close> on a superscript digit or when there is no digit at all.
  \<^verbatim>\<open>int\<close> has no upper bound on the value; CPython (3.11 and later, by default) refuses
  a string of more than 4300 digits with \<^verbatim>\<open>ValueError\<close>. \<^verbatim>\<open>float\<close> has no such limit.
\<close>

fun digit_value :: "char \<Rightarrow> int" where
  "digit_value c = int (of_char c) - 48"

definition decimal :: "string \<Rightarrow> int" where
  "decimal s = foldl (\<lambda>acc c. 10 * acc + digit_value c) 0 s"

definition py_int :: "string \<Rightarrow> error + int" where
  "py_int s =
     (if s \<noteq> [] \<and> list_all isdecimal s \<and> length s \<le> 4300 then Inr (decimal s)
      else Inl ValueError)"

definition py_float :: "string \<Rightarrow> error + tok_value" where
  "py_float s =
     (if list_all (\<lambda>c. isdecimal c \<or> c = CHR ''.'') s \<and> list_ex isdecimal s
         \<and> length (filter (\<lambda>c. c = CHR ''.'') s) \<le> 1
      then Inr (FloatVal s) else Inl ValueError)"

function read_number_loop :: "lexer \<Rightarrow> string \<Rightarrow> bool \<Rightarrow> lexer \<times> string \<times> bool" where
  "read_number_loop L num_str has_dot =
     (case current_char L of
        None \<Rightarrow> (L, num_str, has_dot)
      | Some c \<Rightarrow>
          if isdigit c \<or> c = CHR ''.'' then
            (if c = CHR ''.'' then
               (if has_dot then (L, num_str, has_dot)
                else read_number_loop (advance L) (num_str @ [c]) True)
             else read_number_loop (advance L) (num_str @ [c]) has_dot)
          else (L, num_str, has_dot))"
  by pat_completeness auto
termination
  by (relation "measure (\<lambda>(L, _, _). length (source L) - pos L)") (auto dest: current_char_Some)

declare read_number_loop.simps [simp del]

definition read_number :: "lexer \<Rightarrow> error + (token \<times> lexer)" where
  "read_number L =
     (let start_line = line L; start_col = column L;
          (L', num_str, has_dot) = read_number_loop L [] False
      in case (if has_dot then py_float num_str else map_sum id IntVal (py_int num_str)) of
           Inl e \<Rightarrow> Inl e
         | Inr v \<Rightarrow> Inr (Token TT_NUMBER v start_line start_col, L'))"

text \<open>
  \<^verbatim>\<open>read_string\<close>. The loop ends at the closing quote or at the end of the source. After a
  backslash at the very end of the source \<^verbatim>\<open>escape_char\<close> is \<^verbatim>\<open>None\<close>, and
  \<^verbatim>\<open>string_val += escape_char\<close> raises \<^verbatim>\<open>TypeError\<close>.
\<close>

function read_string_loop :: "char \<Rightarrow> lexer \<Rightarrow> string \<Rightarrow> error + (lexer \<times> string)" where
  "read_string_loop quote L string_val =
     (case current_char L of
        None \<Rightarrow> Inr (L, string_val)
      | Some c \<Rightarrow>
          if c = quote then Inr (L, string_val)
          else if c = CHR 0x5C then
            (let L1 = advance L in
             case current_char L1 of
               None \<Rightarrow> Inl TypeError
             | Some escape_char \<Rightarrow>
                 read_string_loop quote (advance L1)
                   (string_val @
                     [if escape_char = CHR ''n'' then CHR 0x0A
                      else if escape_char = CHR ''t'' then CHR 0x09
                      else if escape_char = CHR 0x5C then CHR 0x5C
                      else if escape_char = quote then quote
                      else escape_char]))
          else read_string_loop quote (advance L) (string_val @ [c]))"
  by pat_completeness auto
termination
  by (relation "measure (\<lambda>(_, L, _). length (source L) - pos L)") (auto dest: current_char_Some)

declare read_string_loop.simps [simp del]

definition read_string :: "lexer \<Rightarrow> char \<Rightarrow> error + (token \<times> lexer)" where
  "read_string L quote =
     (let start_line = line L; start_col = column L in
      case read_string_loop quote (advance L) [] of
        Inl e \<Rightarrow> Inl e
      | Inr (L', string_val) \<Rightarrow>
          Inr (Token TT_STRING (StrVal string_val) start_line start_col, advance L'))"

function read_identifier_loop :: "lexer \<Rightarrow> string \<Rightarrow> lexer \<times> string" where
  "read_identifier_loop L id_str =
     (case current_char L of
        None \<Rightarrow> (L, id_str)
      | Some c \<Rightarrow>
          if isalnum c \<or> c = CHR ''_'' then read_identifier_loop (advance L) (id_str @ [c])
          else (L, id_str))"
  by pat_completeness auto
termination
  by (relation "measure (\<lambda>(L, _). length (source L) - pos L)") (auto dest: current_char_Some)

declare read_identifier_loop.simps [simp del]

definition read_identifier :: "lexer \<Rightarrow> token \<times> lexer" where
  "read_identifier L =
     (let start_line = line L; start_col = column L;
          (L', id_str) = read_identifier_loop L [];
          token_type = (case map_of keywords_table id_str of Some t \<Rightarrow> t | None \<Rightarrow> TT_IDENTIFIER);
          v = (if token_type = TT_BOOLEAN then BoolVal (id_str = ''true'')
               else if token_type = TT_NULL then NoneVal
               else StrVal id_str)
      in (Token token_type v start_line start_col, L'))"

definition append_token :: "token \<Rightarrow> lexer \<Rightarrow> lexer" where
  "append_token t L = L\<lparr>tokens := tokens L @ [t]\<rparr>"

text \<open>
  The operator branch of \<^verbatim>\<open>tokenize\<close>: the two-character operators are tried first, in
  the order of the source, then the one-character ones; any other character raises
  \<^verbatim>\<open>SyntaxError\<close>.
\<close>

definition two_char_operators :: "((char \<times> char) \<times> TokenType \<times> string) list" where
  "two_char_operators =
    [((CHR ''='', CHR ''=''), TT_EQ, ''==''),
     ((CHR ''!'', CHR ''=''), TT_NEQ, ''!=''),
     ((CHR ''<'', CHR ''=''), TT_LTE, ''<=''),
     ((CHR ''>'', CHR ''=''), TT_GTE, ''>=''),
     ((CHR ''+'', CHR ''=''), TT_PLUS_ASSIGN, ''+=''),
     ((CHR ''-'', CHR ''=''), TT_MINUS_ASSIGN, ''-=''),
     ((CHR ''-'', CHR ''>''), TT_ARROW, ''->''),
     ((CHR ''='', CHR ''>''), TT_FAT_ARROW, ''=>''),
     ((CHR ''|'', CHR ''>''), TT_PIPELINE, ''|>''),
     ((CHR ''*'', CHR ''*''), TT_POWER, ''**'')]"

definition one_char_operators :: "(char \<times> TokenType \<times> string) list" where
  "one_char_operators =
    [(CHR ''+'', TT_PLUS, ''+''), (CHR ''-'', TT_MINUS, ''-''), (CHR ''*'', TT_MULTIPLY, ''*''),
     (CHR ''/'', TT_DIVIDE, ''/''), (CHR ''%'', TT_MODULO, ''%''), (CHR ''='', TT_ASSIGN, ''=''),
     (CHR ''<'', TT_LT, ''<''), (CHR ''>'', TT_GT, ''>''), (CHR ''('', TT_LPAREN, ''(''),
     (CHR '')'', TT_RPAREN, '')''), (CHR ''{'', TT_LBRACE, ''{''), (CHR ''}'', TT_RBRACE, ''}''),
     (CHR ''['', TT_LBRACKET, ''[''), (CHR '']'', TT_RBRACKET, '']''), (CHR '','', TT_COMMA, '',''),
     (CHR '';'', TT_SEMICOLON, '';''), (CHR '':'', TT_COLON, '':''), (CHR ''.'', TT_DOT, ''.''),
     (CHR ''?'', TT_QUESTION, ''?''), (CHR ''|'', TT_PIPE, ''|'')]"

definition emit_operator :: "nat \<Rightarrow> TokenType \<Rightarrow> string \<Rightarrow> lexer \<Rightarrow> lexer" where
  "emit_operator n tt v L =
     (advance ^^ n) (append_token (Token tt (StrVal v) (line L) (column L)) L)"

definition operator_step :: "char \<Rightarrow> lexer \<Rightarrow> error + lexer" where
  "operator_step char L =
     (case (case peek L 1 of None \<Rightarrow> None | Some nxt \<Rightarrow> map_of two_char_operators (char, nxt)) of
        Some (tt, v) \<Rightarrow> Inr (emit_operator 2 tt v L)
      | None \<Rightarrow>
          (case map_of one_char_operators char of
             Some (tt, v) \<Rightarrow> Inr (emit_operator 1 tt v L)
           | None \<Rightarrow> Inl (SyntaxError char (line L) (column L))))"

text \<open>
  One iteration of the main loop of \<^verbatim>\<open>tokenize\<close>. The flag is \<open>False\<close> when the loop leaves
  through \<^verbatim>\<open>break\<close>.
\<close>

definition tokenize_step :: "lexer \<Rightarrow> error + (bool \<times> lexer)" where
  "tokenize_step L0 =
     (let L = skip_whitespace L0 in
      case current_char L of
        None \<Rightarrow> Inr (False, L)
      | Some c \<Rightarrow>
          if c = CHR ''#'' then Inr (True, skip_comment L)
          else if c = CHR 0x0A then
            Inr (True, advance (append_token (Token TT_NEWLINE (StrVal [CHR 0x0A]) (line L) (column L)) L))
          else if isdigit c then
            (case read_number L of
               Inl e \<Rightarrow> Inl e
             | Inr (t, L') \<Rightarrow> Inr (True, append_token t L'))
          else if c \<in> set [CHR 0x22, CHR 0x27] then
            (case read_string L c of
               Inl e \<Rightarrow> Inl e
             | Inr (t, L') \<Rightarrow> Inr (True, append_token t L'))
          else if isalpha c \<or> c = CHR ''_'' then
            (case read_identifier L of (t, L') \<Rightarrow> Inr (True, append_token t L'))
          else map_sum id (Pair True) (operator_step c L))"

subsection \<open>Every step of the lexer moves forward\<close>

lemma skip_whitespace_pos: "pos L \<le> pos (skip_whitespace L) \<and> source (skip_whitespace L) = source L"
  by (induction L rule: skip_whitespace.induct)
     (subst (1 2) skip_whitespace.simps, auto split: option.splits)

lemma skip_comment_loop_pos:
  "pos L \<le> pos (skip_comment_loop L) \<and> source (skip_comment_loop L) = source L"
  by (induction L rule: skip_comment_loop.induct)
     (subst (1 2) skip_comment_loop.simps, auto split: option.splits)

lemma skip_comment_pos:
  assumes "current_char L = Some (CHR ''#'')"
  shows "pos L < pos (skip_comment L) \<and> source (skip_comment L) = source L"
proof -
  have "skip_comment L = skip_comment_loop (advance L)"
    using assms by (simp add: skip_comment_def skip_comment_loop.simps [of L])
  then show ?thesis
    using skip_comment_loop_pos [of "advance L"] by simp
qed

lemma read_number_loop_pos:
  "read_number_loop L n h = (L', n', h') \<Longrightarrow> pos L \<le> pos L' \<and> source L' = source L"
proof (induction L n h rule: read_number_loop.induct)
  case (1 L num_str has_dot)
  show ?case
  proof (cases "current_char L")
    case None
    with "1.prems" show ?thesis by (simp add: read_number_loop.simps [of L])
  next
    case (Some c)
    show ?thesis
    proof (cases "isdigit c \<or> c = CHR ''.''")
      case False
      with Some "1.prems" show ?thesis by (simp add: read_number_loop.simps [of L])
    next
      case True
      show ?thesis
      proof (cases "c = CHR ''.''")
        case dot: True
        show ?thesis
        proof (cases has_dot)
          case True
          with Some dot "1.prems" show ?thesis by (simp add: read_number_loop.simps [of L])
        next
          case False
          with Some dot "1.prems"
          have "read_number_loop (advance L) (num_str @ [c]) True = (L', n', h')"
            by (simp add: read_number_loop.simps [of L])
          from "1.IH"(1) [OF Some True dot False this] show ?thesis by simp
        qed
      next
        case nodot: False
        with Some True "1.prems"
        have "read_number_loop (advance L) (num_str @ [c]) has_dot = (L', n', h')"
          by (simp add: read_number_loop.simps [of L])
        from "1.IH"(2) [OF Some True nodot this] show ?thesis by simp
      qed
    qed
  qed
qed

lemma read_number_pos:
  assumes "current_char L = Some c" "isdigit c" "read_number L = Inr (t, L')"
  shows "pos L < pos L' \<and> source L' = source L"
proof -
  have dot: "c \<noteq> CHR ''.''"
    using assms(2) by (auto simp: isdigit_def isdecimal_def)
  have "read_number_loop L [] False = read_number_loop (advance L) [c] False"
    using assms(1,2) dot by (simp add: read_number_loop.simps [of L])
  moreover obtain n h where "read_number_loop L [] False = (L', n, h)"
    using assms(3) by (auto simp: read_number_def Let_def split: prod.splits sum.splits)
  ultimately show ?thesis
    using read_number_loop_pos [of "advance L" "[c]" False L' n h] by simp
qed

lemma read_string_loop_pos:
  "read_string_loop q L s = Inr (L', s') \<Longrightarrow> pos L \<le> pos L' \<and> source L' = source L"
proof (induction q L s rule: read_string_loop.induct)
  case (1 quote L string_val)
  show ?case
  proof (cases "current_char L")
    case None
    with "1.prems" show ?thesis by (simp add: read_string_loop.simps [of quote L])
  next
    case (Some c)
    show ?thesis
    proof (cases "c = quote")
      case True
      with Some "1.prems" show ?thesis by (simp add: read_string_loop.simps [of quote L])
    next
      case nq: False
      show ?thesis
      proof (cases "c = CHR 0x5C")
        case bs: True
        show ?thesis
        proof (cases "current_char (advance L)")
          case None
          with Some nq bs "1.prems" show ?thesis
            by (simp add: read_string_loop.simps [of quote L])
        next
          case e: (Some escape_char)
          from Some nq bs e "1.prems" obtain sv where
            "read_string_loop quote (advance (advance L)) sv = Inr (L', s')"
            and "sv = string_val @
                     [if escape_char = CHR ''n'' then CHR 0x0A
                      else if escape_char = CHR ''t'' then CHR 0x09
                      else if escape_char = CHR 0x5C then CHR 0x5C
                      else if escape_char = quote then quote
                      else escape_char]"
            by (simp add: read_string_loop.simps [of quote L])
          with "1.IH"(1) [OF Some nq bs refl e] show ?thesis by simp
        qed
      next
        case nbs: False
        with Some nq "1.prems"
        have "read_string_loop quote (advance L) (string_val @ [c]) = Inr (L', s')"
          by (simp add: read_string_loop.simps [of quote L])
        from "1.IH"(2) [OF Some nq nbs this] show ?thesis by simp
      qed
    qed
  qed
qed

lemma read_string_pos:
  assumes "read_string L q = Inr (t, L')"
  shows "pos L < pos L' \<and> source L' = source L"
  using assms read_string_loop_pos [of q "advance L" "[]"]
  by (auto simp: read_string_def Let_def split: sum.splits prod.splits)

lemma read_identifier_loop_pos:
  "read_identifier_loop L s = (L', s') \<Longrightarrow> pos L \<le> pos L' \<and> source L' = source L"
proof (induction L s rule: read_identifier_loop.induct)
  case (1 L id_str)
  show ?case
  proof (cases "current_char L")
    case None
    with "1.prems" show ?thesis by (simp add: read_identifier_loop.simps [of L])
  next
    case (Some c)
    show ?thesis
    proof (cases "isalnum c \<or> c = CHR ''_''")
      case False
      with Some "1.prems" show ?thesis by (simp add: read_identifier_loop.simps [of L])
    next
      case True
      with Some "1.prems"
      have "read_identifier_loop (advance L) (id_str @ [c]) = (L', s')"
        by (simp add: read_identifier_loop.simps [of L])
      from "1.IH" [OF Some True this] show ?thesis by simp
    qed
  qed
qed

lemma read_identifier_pos:
  assumes "current_char L = Some c" "isalpha c \<or> c = CHR ''_''" "read_identifier L = (t, L')"
  shows "pos L < pos L' \<and> source L' = source L"
proof -
  have "read_identifier_loop L [] = read_identifier_loop (advance L) [c]"
    using assms(1,2) by (auto simp: read_identifier_loop.simps [of L] isalnum_def)
  moreover obtain s where "read_identifier_loop L [] = (L', s)"
    using assms(3) by (auto simp: read_identifier_def Let_def split: prod.splits)
  ultimately show ?thesis
    using read_identifier_loop_pos [of "advance L" "[c]" L' s] by simp
qed

lemma operator_step_pos:
  "operator_step c L = Inr L' \<Longrightarrow> pos L < pos L' \<and> source L' = source L"
  by (auto simp: operator_step_def emit_operator_def append_token_def numeral_2_eq_2
           split: option.splits)

lemma tokenize_step_pos:
  assumes "tokenize_step L = Inr (True, L')"
  shows "pos L < pos L' \<and> source L' = source L"
proof -
  let ?W = "skip_whitespace L"
  have W: "pos L \<le> pos ?W" "source ?W = source L"
    using skip_whitespace_pos [of L] by simp_all
  obtain c where c: "current_char ?W = Some c"
    using assms by (cases "current_char ?W") (simp_all add: tokenize_step_def Let_def)
  have "pos ?W < pos L' \<and> source L' = source ?W"
  proof (cases "c = CHR ''#''")
    case True
    with assms c have "L' = skip_comment ?W"
      by (simp add: tokenize_step_def Let_def)
    with skip_comment_pos [of ?W] c True show ?thesis by simp
  next
    case f1: False
    show ?thesis
    proof (cases "c = CHR 0x0A")
      case True
      with assms c f1 show ?thesis
        by (auto simp add: tokenize_step_def Let_def append_token_def)
    next
      case f2: False
      show ?thesis
      proof (cases "isdigit c")
        case True
        with assms c f1 f2 obtain t L1 where
          "read_number ?W = Inr (t, L1)" "L' = append_token t L1"
          by (cases "read_number ?W") (auto simp add: tokenize_step_def Let_def)
        with read_number_pos [OF c True, of t L1] show ?thesis
          by (simp add: append_token_def)
      next
        case f3: False
        show ?thesis
        proof (cases "c \<in> set [CHR 0x22, CHR 0x27]")
          case True
          with assms c f1 f2 f3 obtain t L1 where
            "read_string ?W c = Inr (t, L1)" "L' = append_token t L1"
            by (cases "read_string ?W c") (auto simp add: tokenize_step_def Let_def)
          with read_string_pos [of ?W c t L1] show ?thesis
            by (simp add: append_token_def)
        next
          case f4: False
          show ?thesis
          proof (cases "isalpha c \<or> c = CHR ''_''")
            case True
            obtain t L1 where r: "read_identifier ?W = (t, L1)"
              by (cases "read_identifier ?W")
            with assms c f1 f2 f3 f4 True have "L' = append_token t L1"
              by (simp add: tokenize_step_def Let_def)
            with read_identifier_pos [OF c True r] show ?thesis
              by (simp add: append_token_def)
          next
            case f5: False
            with assms c f1 f2 f3 f4 have "operator_step c ?W = Inr L'"
              by (cases "operator_step c ?W") (simp_all add: tokenize_step_def Let_def)
            then show ?thesis by (rule operator_step_pos)
          qed
        qed
      qed
    qed
  qed
  with W show ?thesis by simp
qed

function tokenize_loop :: "lexer \<Rightarrow> error + lexer" where
  "tokenize_loop L =
     (case current_char L of
        None \<Rightarrow> Inr L
      | Some _ \<Rightarrow>
          (case tokenize_step L of
             Inl e \<Rightarrow> Inl e
           | Inr (continue, L') \<Rightarrow> if continue then tokenize_loop L' else Inr L'))"
  by pat_completeness auto
termination
proof (relation "measure (\<lambda>L. length (source L) - pos L)")
  show "wf (measure (\<lambda>L. length (source L) - pos L))" by simp
next
  fix L c x y continue L'
  assume "current_char L = Some c" "tokenize_step L = Inr x" "(continue, L') = x" "continue"
  then have "tokenize_step L = Inr (True, L')" "pos L < length (source L)"
    by (auto dest: current_char_Some)
  then show "(L', L) \<in> measure (\<lambda>L. length (source L) - pos L)"
    using tokenize_step_pos [of L L'] by auto
qed

declare tokenize_loop.simps [simp del]

definition tokenize :: "string \<Rightarrow> error + token list" where
  "tokenize src =
     (case tokenize_loop (Lexer src) of
        Inl e \<Rightarrow> Inl e
      | Inr L \<Rightarrow> Inr (tokens L @ [Token TT_EOF NoneVal (line L) (column L)]))"


subsection \<open>Reading a run of digits\<close>

lemma isdigit_not_dot: "isdigit c \<Longrightarrow> c \<noteq> CHR ''.''"
  by (auto simp: isdigit_def isdecimal_def)

lemma isdecimal_isdigit: "isdecimal c \<Longrightarrow> isdigit c"
  by (simp add: isdigit_def)

lemma read_number_loop_digits:
  assumes "list_all isdigit ds"
    and "source L = pre @ ds @ rest" and "pos L = length pre"
    and "rest = [] \<or> (\<not> isdigit (hd rest) \<and> hd rest \<noteq> CHR ''.'')"
  shows "read_number_loop L acc h = ((advance ^^ length ds) L, acc @ ds, h)"
  using assms
proof (induction ds arbitrary: L pre acc)
  case Nil
  show ?case
  proof (cases rest)
    case Nil
    with Nil.prems have "current_char L = None"
      by (simp add: current_char_def)
    then show ?thesis by (simp add: read_number_loop.simps [of L])
  next
    case (Cons r rs)
    with Nil.prems have "current_char L = Some r" "\<not> isdigit r" "r \<noteq> CHR ''.''"
      by (simp_all add: current_char_def)
    then show ?thesis by (simp add: read_number_loop.simps [of L])
  qed
next
  case (Cons d ds)
  from Cons.prems have cur: "current_char L = Some d" and dig: "isdigit d"
    by (simp_all add: current_char_def nth_append)
  from dig have nd: "d \<noteq> CHR ''.''" by (rule isdigit_not_dot)
  have step: "read_number_loop L acc h = read_number_loop (advance L) (acc @ [d]) h"
    using cur dig nd by (simp add: read_number_loop.simps [of L])
  have "read_number_loop (advance L) (acc @ [d]) h
          = ((advance ^^ length ds) (advance L), (acc @ [d]) @ ds, h)"
    using Cons.prems by (intro Cons.IH [of "advance L" "pre @ [d]"]) simp_all
  with step show ?case by (simp add: funpow_swap1)
qed

lemma funpow_advance_pos: "pos ((advance ^^ n) L) = pos L + n"
  by (induction n) simp_all


lemmas lexer_eval =
  tokenize_def Lexer_def tokenize_loop.simps tokenize_step_def skip_whitespace.simps
  skip_comment_def skip_comment_loop.simps current_char_def peek_def advance_def
  read_string_def read_string_loop.simps read_number_def read_number_loop.simps
  read_identifier_def read_identifier_loop.simps append_token_def operator_step_def
  emit_operator_def isdecimal_def isdigit_def isnumeric_def isalpha_def isalnum_def py_int_def py_float_def decimal_def
  Let_def


section \<open>The abstract syntax (frontend/ast.py)\<close>

text \<open>
  The value of a \<^verbatim>\<open>NumberLiteral\<close> is a Python int or float, as the lexer produced it;
  a float is kept as its text.
\<close>

datatype num_value = IntNum int | FloatNum string

text \<open>
  Every node class is a subclass of \<^verbatim>\<open>ASTNode\<close>, and the checker and the lowerer
  dispatch on the class with \<^verbatim>\<open>isinstance\<close>: the classes are the constructors of one
  datatype, with the fields in the order of the dataclass. An \<^verbatim>\<open>Optional\<close> field is an
  option. The body of a function declaration is a \<^verbatim>\<open>Block\<close> (here its statement list)
  or \<^verbatim>\<open>None\<close> for a trait signature.
\<close>

datatype ASTNode =
    NumberLiteral num_value
  | StringLiteral string
  | BooleanLiteral bool
  | NullLiteral
  | Identifier string
  | BinaryOp ASTNode string ASTNode
  | UnaryOp string ASTNode
  | CallExpr ASTNode "ASTNode list"
  | ArrayLiteral "ASTNode list"
  | IndexExpr ASTNode ASTNode
  | MemberAccess ASTNode string
  | LambdaExpr "(string \<times> string) list" ASTNode "string option"
  | PipelineExpr ASTNode "ASTNode list"
  | MatchExpr ASTNode "(ASTNode \<times> ASTNode) list"
  | VarDeclaration string "string option" "ASTNode option" bool
  | FunctionDeclaration string "(string \<times> string) list" string "ASTNode list option" bool
  | ClassDeclaration string "ASTNode list" "ASTNode list" "string list option"
  | TraitDeclaration string "ASTNode list"
  | Block "ASTNode list"
  | ExpressionStatement ASTNode
  | ReturnStatement "ASTNode option"
  | IfStatement ASTNode ASTNode "ASTNode option"
  | WhileStatement ASTNode ASTNode
  | ForStatement string ASTNode ASTNode
  | BreakStatement
  | ContinueStatement
  | AssignmentStatement ASTNode ASTNode string
  | ParallelBlock "ASTNode list"
  | AsyncAwait ASTNode
  | ImportStatement string "string list option" "string option"
  | ObjectLiteral string "(string \<times> ASTNode) list"
  | Program "ASTNode list"


section \<open>The type checker (frontend/types.py)\<close>

text \<open>
  A \<^verbatim>\<open>TypeEnvironment\<close> holds the dictionaries \<^verbatim>\<open>variables\<close> and \<^verbatim>\<open>functions\<close> and a
  link to its parent (\<^verbatim>\<open>classes\<close> and \<^verbatim>\<open>traits\<close> are never written nor read by the
  checker). The chain of environments is a list, the current one first. A function type
  stored in \<^verbatim>\<open>functions\<close> is always built with its name, parameter types and return
  type; these three fields are what is stored.
\<close>

type_synonym func_sig = "string \<times> vtype list \<times> vtype"

type_synonym scope = "(string \<rightharpoonup> vtype) \<times> (string \<rightharpoonup> func_sig)"

text \<open>
  The messages of \<^verbatim>\<open>TypeChecker.error\<close>, by their format string: undefined variable,
  failed assignment (source type, target type), non-bool condition of an if and of a
  while.
\<close>

datatype type_error =
    UndefinedVariable string
  | CannotAssign vtype vtype
  | IfCondition vtype
  | WhileCondition vtype

record checker =
  env :: "scope list"
  errors :: "type_error list"

fun get_variable :: "scope list \<Rightarrow> string \<Rightarrow> vtype option" where
  "get_variable [] n = None"
| "get_variable (s # parent) n =
     (case fst s n of Some t \<Rightarrow> Some t | None \<Rightarrow> get_variable parent n)"

fun get_function :: "scope list \<Rightarrow> string \<Rightarrow> func_sig option" where
  "get_function [] n = None"
| "get_function (s # parent) n =
     (case snd s n of Some t \<Rightarrow> Some t | None \<Rightarrow> get_function parent n)"

text \<open>\<^verbatim>\<open>define_variable\<close> and \<^verbatim>\<open>define_function\<close> write into one environment.\<close>

definition scope_define_variable :: "string \<Rightarrow> vtype \<Rightarrow> scope \<Rightarrow> scope" where
  "scope_define_variable n t s = ((fst s)(n \<mapsto> t), snd s)"

definition scope_define_function :: "string \<Rightarrow> func_sig \<Rightarrow> scope \<Rightarrow> scope" where
  "scope_define_function n t s = (fst s, (snd s)(n \<mapsto> t))"

text \<open>\<^verbatim>\<open>self.env.define_variable\<close>: the current environment is the head of the chain.\<close>

definition define_variable :: "string \<Rightarrow> vtype \<Rightarrow> checker \<Rightarrow> checker" where
  "define_variable n t c =
     (case env c of
        [] \<Rightarrow> c
      | s # parent \<Rightarrow> c\<lparr>env := scope_define_variable n t s # parent\<rparr>)"

definition error :: "type_error \<Rightarrow> checker \<Rightarrow> checker" where
  "error message c = c\<lparr>errors := errors c @ [message]\<rparr>"

text \<open>\<^verbatim>\<open>TypeChecker.__init__\<close> with \<^verbatim>\<open>_setup_builtins\<close>; the second \<^verbatim>\<open>range\<close> replaces the first.\<close>

definition ARRAY_OF :: "vtype \<Rightarrow> vtype" where
  "ARRAY_OF t = Type TK_ARRAY ''array'' (Some t) None None None"

definition builtins :: scope where
  "builtins =
     (Map.empty,
      [''print'' \<mapsto> (''print'', [AUTO_TYPE], VOID_TYPE),
       ''len'' \<mapsto> (''len'', [ARRAY_OF AUTO_TYPE], INT_TYPE),
       ''range'' \<mapsto> (''range'', [INT_TYPE], ARRAY_OF INT_TYPE),
       ''str'' \<mapsto> (''str'', [AUTO_TYPE], STRING_TYPE),
       ''range'' \<mapsto> (''range'', [INT_TYPE, INT_TYPE], ARRAY_OF INT_TYPE)])"

definition TypeChecker :: checker where
  "TypeChecker = \<lparr>env = [builtins], errors = []\<rparr>"

text \<open>
  \<^verbatim>\<open>infer_type\<close>. It reads the environment and may append errors. An operator outside the
  listed ones, a call that is not resolved and every node class that has no branch fall
  through to the final \<^verbatim>\<open>return AUTO_TYPE\<close>.
\<close>

fun infer_type :: "ASTNode \<Rightarrow> checker \<Rightarrow> vtype \<times> checker" where
  "infer_type (NumberLiteral (IntNum v)) c = (INT_TYPE, c)"
| "infer_type (NumberLiteral (FloatNum v)) c = (FLOAT_TYPE, c)"
| "infer_type (StringLiteral v) c = (STRING_TYPE, c)"
| "infer_type (BooleanLiteral v) c = (BOOL_TYPE, c)"
| "infer_type NullLiteral c = (NULL_TYPE, c)"
| "infer_type (Identifier n) c =
     (case get_variable (env c) n of
        None \<Rightarrow> (AUTO_TYPE, error (UndefinedVariable n) c)
      | Some var_type \<Rightarrow> (var_type, c))"
| "infer_type (BinaryOp left operator right) c =
     (case infer_type left c of (left_type, c1) \<Rightarrow>
      case infer_type right c1 of (right_type, c2) \<Rightarrow>
        if operator \<in> set [''+'', ''-'', ''*'', ''/'', ''%'', ''**''] then
          (if kind left_type = TK_FLOAT \<or> kind right_type = TK_FLOAT then (FLOAT_TYPE, c2)
           else (INT_TYPE, c2))
        else if operator \<in> set [''=='', ''!='', ''<'', ''>'', ''<='', ''>=''] then (BOOL_TYPE, c2)
        else if operator \<in> set [''and'', ''or''] then (BOOL_TYPE, c2)
        else (AUTO_TYPE, c2))"
| "infer_type (UnaryOp operator operand) c =
     (case infer_type operand c of (operand_type, c1) \<Rightarrow>
        if operator = ''not'' then (BOOL_TYPE, c1)
        else if operator = ''-'' then (operand_type, c1)
        else (AUTO_TYPE, c1))"
| "infer_type (CallExpr (Identifier n) arguments) c =
     (case get_function (env c) n of
        Some (fname, params, ret) \<Rightarrow> (ret, c)
      | None \<Rightarrow> (AUTO_TYPE, c))"
| "infer_type (ArrayLiteral []) c = (ARRAY_OF AUTO_TYPE, c)"
| "infer_type (ArrayLiteral (e # es)) c =
     (case infer_type e c of (elem_type, c1) \<Rightarrow> (ARRAY_OF elem_type, c1))"
| "infer_type (LambdaExpr parameters body ret) c =
     (Type TK_FUNCTION ''lambda'' None
        (Some (map (\<lambda>(_, t). parse_type_string t) parameters))
        (Some (case ret of None \<Rightarrow> VOID_TYPE | Some r \<Rightarrow> parse_type_string r))
        None,
      c)"
| "infer_type _ c = (AUTO_TYPE, c)"

text \<open>
  Python's truth value of an \<^verbatim>\<open>Optional[str]\<close>: \<^verbatim>\<open>None\<close> and the empty string are false.
\<close>

fun truthy :: "string option \<Rightarrow> bool" where
  "truthy None = False"
| "truthy (Some s) = (s \<noteq> [])"

text \<open>
  \<^verbatim>\<open>check_statement\<close>, \<^verbatim>\<open>check_block\<close> and \<^verbatim>\<open>check_function\<close>. A node of any other
  class (a block among them) is skipped. \<^verbatim>\<open>check_function\<close> reads
  \<^verbatim>\<open>func_decl.body.statements\<close>, which raises \<^verbatim>\<open>AttributeError\<close> when the body is
  \<^verbatim>\<open>None\<close>.
\<close>

fun check_statement :: "ASTNode \<Rightarrow> checker \<Rightarrow> error + checker"
  and check_block :: "ASTNode list \<Rightarrow> checker \<Rightarrow> error + checker"
where
  "check_statement (VarDeclaration n var_type (Some initializer) is_const) c =
     (case infer_type initializer c of (init_type, c1) \<Rightarrow>
        if truthy var_type \<and> var_type \<noteq> Some ''auto'' then
          (case var_type of
             Some vt \<Rightarrow>
               (let declared_type = parse_type_string vt;
                    c2 = (if \<not> can_assign declared_type init_type
                          then error (CannotAssign init_type declared_type) c1 else c1)
                in Inr (define_variable n declared_type c2))
           | None \<Rightarrow> Inr c1)
        else Inr (define_variable n init_type c1))"
| "check_statement (VarDeclaration n var_type None is_const) c =
     (case var_type of
        Some vt \<Rightarrow> if vt \<noteq> [] then Inr (define_variable n (parse_type_string vt) c) else Inr c
      | None \<Rightarrow> Inr c)"
| "check_statement (FunctionDeclaration fname parameters ret body is_async) c =
     (let old_env = env c;
          ptypes = map (\<lambda>(_, t). parse_type_string t) parameters;
          func_env = fold (\<lambda>(param_name, t). scope_define_variable param_name (parse_type_string t))
                       parameters (Map.empty, Map.empty);
          func_type = (fname, ptypes, parse_type_string ret);
          old_env' = (case old_env of
                        [] \<Rightarrow> []
                      | s # parent \<Rightarrow> scope_define_function fname func_type s # parent)
      in case body of
           None \<Rightarrow> Inl AttributeError
         | Some statements \<Rightarrow>
             (case check_block statements (c\<lparr>env := func_env # old_env'\<rparr>) of
                Inl e \<Rightarrow> Inl e
              | Inr c1 \<Rightarrow> Inr (c1\<lparr>env := tl (env c1)\<rparr>)))"
| "check_statement (AssignmentStatement target val operator) c =
     (case infer_type target c of (target_type, c1) \<Rightarrow>
      case infer_type val c1 of (value_type, c2) \<Rightarrow>
        if \<not> can_assign target_type value_type
        then Inr (error (CannotAssign value_type target_type) c2)
        else Inr c2)"
| "check_statement (ExpressionStatement expression) c = Inr (snd (infer_type expression c))"
| "check_statement (ReturnStatement (Some v)) c = Inr (snd (infer_type v c))"
| "check_statement (ReturnStatement None) c = Inr c"
| "check_statement (IfStatement condition then_branch else_branch) c =
     (case infer_type condition c of (cond_type, c1) \<Rightarrow>
        (let c2 = (if kind cond_type \<noteq> TK_BOOL then error (IfCondition cond_type) c1 else c1)
         in (case check_statement then_branch c2 of
               Inl e \<Rightarrow> Inl e
             | Inr c3 \<Rightarrow>
                 (case else_branch of
                    None \<Rightarrow> Inr c3
                  | Some else_stmt \<Rightarrow> check_statement else_stmt c3))))"
| "check_statement (WhileStatement condition body) c =
     (case infer_type condition c of (cond_type, c1) \<Rightarrow>
        (let c2 = (if kind cond_type \<noteq> TK_BOOL then error (WhileCondition cond_type) c1 else c1)
         in check_statement body c2))"
| "check_statement _ c = Inr c"
| "check_block [] c = Inr c"
| "check_block (stmt # stmts) c =
     (case check_statement stmt c of
        Inl e \<Rightarrow> Inl e
      | Inr c1 \<Rightarrow> check_block stmts c1)"

text \<open>
  \<^verbatim>\<open>check_program\<close>, from the checker as \<^verbatim>\<open>TypeChecker()\<close> builds it or from any other
  state: the statements of the program are checked in order and the verdict is
  \<^verbatim>\<open>len(self.errors) == 0\<close>.
\<close>

definition check_program :: "ASTNode list \<Rightarrow> checker \<Rightarrow> error + (bool \<times> checker)" where
  "check_program statements c =
     (case check_block statements c of
        Inl e \<Rightarrow> Inl e
      | Inr c1 \<Rightarrow> Inr (errors c1 = [], c1))"


section \<open>The IR library, as the lowerer uses it\<close>

text \<open>
  The lowerer builds its module with the classes of the IR library (\<^verbatim>\<open>llvmlite.ir\<close>).
  This section holds the part of that library the lowerer calls: types, values,
  instructions, blocks, functions, and the operations of \<^verbatim>\<open>IRBuilder\<close> with the checks they
  make (operand types of a binary operation, of a store and of a call; one terminator
  per block).
\<close>

datatype ir_type =
    IntType nat
  | DoubleType
  | VoidType
  | PointerType ir_type
  | ArrayType ir_type nat
  | FunctionType ir_type "ir_type list" bool

definition i32 :: ir_type where "i32 = IntType 32"
definition i64 :: ir_type where "i64 = IntType 64"
definition f64 :: ir_type where "f64 = DoubleType"
definition i1 :: ir_type where "i1 = IntType 1"
definition void :: ir_type where "void = VoidType"
definition i8_ptr :: ir_type where "i8_ptr = PointerType (IntType 8)"

lemmas ir_type_defs = i32_def i64_def f64_def i1_def void_def i8_ptr_def

text \<open>
  The payload of a constant: a Python int, a float (kept as its text) or a byte array.
\<close>

datatype const_value = IntConst int | FloatConst string | BytesConst string

text \<open>
  A value is a constant, a function argument, the result of an instruction (named by the
  number the instruction got when it was created), a global variable, a function, or
  Python's \<^verbatim>\<open>None\<close> (which \<^verbatim>\<open>compile_print\<close> returns for \<^verbatim>\<open>print()\<close>).
\<close>

datatype ir_value =
    Constant ir_type const_value
  | Argument ir_type string
  | Instruction ir_type nat
  | GlobalVariable ir_type string nat
  | FunctionValue string ir_type
  | NoneValue

text \<open>\<^verbatim>\<open>value.type\<close>; on \<^verbatim>\<open>None\<close> it raises \<^verbatim>\<open>AttributeError\<close>.\<close>

fun type_of :: "ir_value \<Rightarrow> error + ir_type" where
  "type_of (Constant t v) = Inr t"
| "type_of (Argument t n) = Inr t"
| "type_of (Instruction t n) = Inr t"
| "type_of (GlobalVariable t n k) = Inr (PointerType t)"
| "type_of (FunctionValue n t) = Inr (PointerType t)"
| "type_of NoneValue = Inl AttributeError"

datatype instr =
    Alloca ir_type string
  | Store ir_value ir_value
  | Load ir_value string
  | BinOp string ir_value ir_value
  | ICmp string ir_value ir_value
  | FCmp string ir_value ir_value
  | CallInstr ir_value "ir_value list"
  | Bitcast ir_value ir_type
  | Ret ir_value
  | RetVoid
  | Branch "nat \<times> nat"
  | CBranch ir_value "nat \<times> nat" "nat \<times> nat"

fun is_terminator :: "instr \<Rightarrow> bool" where
  "is_terminator (Ret v) = True"
| "is_terminator RetVoid = True"
| "is_terminator (Branch b) = True"
| "is_terminator (CBranch c t e) = True"
| "is_terminator _ = False"

text \<open>
  A basic block: the name it was asked for, its instructions in order (each with its
  number) and the \<^verbatim>\<open>terminator\<close> field, which \<^verbatim>\<open>is_terminated\<close> tests. A block object is
  referred to by the position of its function in the module and its own position in the
  function; a branch names its target so.
\<close>

record basic_block =
  label :: string
  instructions :: "(nat \<times> instr) list"
  terminator :: "instr option"

definition is_terminated :: "basic_block \<Rightarrow> bool" where
  "is_terminated b = (terminator b \<noteq> None)"

record ir_function =
  fn_name :: string
  fn_type :: ir_type
  blocks :: "basic_block list"

datatype ir_global = GlobalConstant string nat ir_type const_value


section \<open>The lowerer (backend/llvm\_compiler.py)\<close>

text \<open>
  The fields of \<^verbatim>\<open>LLVMCompiler\<close>. The module is its list of declared names (the three
  externs first), its functions with a body and its global constants. The builder is
  \<^verbatim>\<open>None\<close> or stands at the end of a block, named by the positions of its function and
  of the block. \<^verbatim>\<open>variables\<close> and \<^verbatim>\<open>functions\<close> (here \<open>functions_table\<close>) are the
  two symbol tables; there is one
  of each for the whole module. \<open>next_id\<close> numbers the objects created, for the
  instruction results and for the \<^verbatim>\<open>id(...)\<close> in the names of the global constants.
\<close>

record compiler =
  declared :: "string list"
  ir_functions :: "ir_function list"
  globals :: "ir_global list"
  builder :: "(nat \<times> nat) option"
  variables :: "string \<rightharpoonup> ir_value"
  functions_table :: "string \<rightharpoonup> ir_value"
  current_function :: "nat option"
  next_id :: nat

definition printf :: ir_value where
  "printf = FunctionValue ''printf'' (FunctionType i32 [i8_ptr] True)"

definition LLVMCompiler :: compiler where
  "LLVMCompiler =
     \<lparr>declared = [''printf'', ''malloc'', ''free''], ir_functions = [], globals = [],
      builder = None, variables = Map.empty, functions_table = Map.empty,
      current_function = None, next_id = 0\<rparr>"

subsection \<open>The builder\<close>

definition map_at :: "nat \<Rightarrow> ('a \<Rightarrow> 'a) \<Rightarrow> 'a list \<Rightarrow> 'a list" where
  "map_at i g xs = (if i < length xs then xs[i := g (xs ! i)] else xs)"

definition update_block :: "nat \<Rightarrow> nat \<Rightarrow> (basic_block \<Rightarrow> basic_block) \<Rightarrow> compiler \<Rightarrow> compiler" where
  "update_block f b g st =
     st\<lparr>ir_functions := map_at f (\<lambda>fn. fn\<lparr>blocks := map_at b g (blocks fn)\<rparr>) (ir_functions st)\<rparr>"

definition block_at :: "compiler \<Rightarrow> nat \<Rightarrow> nat \<Rightarrow> basic_block option" where
  "block_at st f b =
     (if f < length (ir_functions st) \<and> b < length (blocks (ir_functions st ! f))
      then Some (blocks (ir_functions st ! f) ! b) else None)"

text \<open>
  \<^verbatim>\<open>IRBuilder._insert\<close>: the instruction goes to the end of the builder's block. Every
  method of the builder is reached through \<^verbatim>\<open>self.builder\<close>, which raises
  \<^verbatim>\<open>AttributeError\<close> when the builder is \<^verbatim>\<open>None\<close>.
\<close>

definition insert_instr :: "instr \<Rightarrow> compiler \<Rightarrow> error + (nat \<times> compiler)" where
  "insert_instr i st =
     (case builder st of
        None \<Rightarrow> Inl AttributeError
      | Some (f, b) \<Rightarrow>
          Inr (next_id st,
               (update_block f b (\<lambda>blk. blk\<lparr>instructions := instructions blk @ [(next_id st, i)]\<rparr>) st)
                 \<lparr>next_id := next_id st + 1\<rparr>))"

text \<open>\<^verbatim>\<open>self.builder.block.is_terminated\<close>.\<close>

definition block_is_terminated :: "compiler \<Rightarrow> error + bool" where
  "block_is_terminated st =
     (case builder st of
        None \<Rightarrow> Inl AttributeError
      | Some (f, b) \<Rightarrow>
          (case block_at st f b of
             None \<Rightarrow> Inl AttributeError
           | Some blk \<Rightarrow> Inr (is_terminated blk)))"

text \<open>
  \<^verbatim>\<open>IRBuilder._set_terminator\<close>: \<^verbatim>\<open>assert not self.block.is_terminated\<close>, then the
  instruction is inserted and becomes the terminator of the block.
\<close>

definition set_terminator :: "instr \<Rightarrow> compiler \<Rightarrow> error + compiler" where
  "set_terminator t st =
     (case block_is_terminated st of
        Inl e \<Rightarrow> Inl e
      | Inr True \<Rightarrow> Inl AssertionError
      | Inr False \<Rightarrow>
          (case insert_instr t st of
             Inl e \<Rightarrow> Inl e
           | Inr (n, st1) \<Rightarrow>
               (case builder st of
                  None \<Rightarrow> Inl AttributeError
                | Some (f, b) \<Rightarrow> Inr (update_block f b (\<lambda>blk. blk\<lparr>terminator := Some t\<rparr>) st1))))"

definition ret :: "ir_value \<Rightarrow> compiler \<Rightarrow> error + compiler" where
  "ret v st = set_terminator (Ret v) st"

definition ret_void :: "compiler \<Rightarrow> error + compiler" where
  "ret_void st = set_terminator RetVoid st"

definition branch :: "nat \<times> nat \<Rightarrow> compiler \<Rightarrow> error + compiler" where
  "branch target st = set_terminator (Branch target) st"

definition cbranch :: "ir_value \<Rightarrow> nat \<times> nat \<Rightarrow> nat \<times> nat \<Rightarrow> compiler \<Rightarrow> error + compiler" where
  "cbranch cond truebr falsebr st = set_terminator (CBranch cond truebr falsebr) st"

definition alloca :: "ir_type \<Rightarrow> string \<Rightarrow> compiler \<Rightarrow> error + (ir_value \<times> compiler)" where
  "alloca typ n st =
     (case insert_instr (Alloca typ n) st of
        Inl e \<Rightarrow> Inl e
      | Inr (k, st1) \<Rightarrow> Inr (Instruction (PointerType typ) k, st1))"

text \<open>
  \<^verbatim>\<open>store\<close>: the target must be a pointer and its pointee type the type of the value,
  else \<^verbatim>\<open>TypeError\<close>.
\<close>

definition store :: "ir_value \<Rightarrow> ir_value \<Rightarrow> compiler \<Rightarrow> error + compiler" where
  "store v ptr st =
     (case builder st of
        None \<Rightarrow> Inl AttributeError
      | Some _ \<Rightarrow>
          (case type_of ptr of
             Inl e \<Rightarrow> Inl e
           | Inr (PointerType pointee) \<Rightarrow>
               (case type_of v of
                  Inl e \<Rightarrow> Inl e
                | Inr t \<Rightarrow>
                    if pointee \<noteq> t then Inl TypeError
                    else map_sum id snd (insert_instr (Store v ptr) st))
           | Inr _ \<Rightarrow> Inl TypeError))"

definition load :: "ir_value \<Rightarrow> string \<Rightarrow> compiler \<Rightarrow> error + (ir_value \<times> compiler)" where
  "load ptr n st =
     (case builder st of
        None \<Rightarrow> Inl AttributeError
      | Some _ \<Rightarrow>
          (case type_of ptr of
             Inl e \<Rightarrow> Inl e
           | Inr (PointerType pointee) \<Rightarrow>
               (case insert_instr (Load ptr n) st of
                  Inl e \<Rightarrow> Inl e
                | Inr (k, st1) \<Rightarrow> Inr (Instruction pointee k, st1))
           | Inr _ \<Rightarrow> Inl TypeError))"

text \<open>
  A binary operation (\<^verbatim>\<open>add\<close>, \<^verbatim>\<open>fadd\<close>, \<^verbatim>\<open>mul\<close>, ...): both operands must have the same
  type, else \<^verbatim>\<open>ValueError\<close>; the result has that type.
\<close>

definition binop :: "string \<Rightarrow> ir_value \<Rightarrow> ir_value \<Rightarrow> compiler \<Rightarrow> error + (ir_value \<times> compiler)" where
  "binop opname lhs rhs st =
     (case builder st of
        None \<Rightarrow> Inl AttributeError
      | Some _ \<Rightarrow>
          (case type_of lhs of
             Inl e \<Rightarrow> Inl e
           | Inr lt \<Rightarrow>
               (case type_of rhs of
                  Inl e \<Rightarrow> Inl e
                | Inr rt \<Rightarrow>
                    if lt \<noteq> rt then Inl ValueError
                    else (case insert_instr (BinOp opname lhs rhs) st of
                            Inl e \<Rightarrow> Inl e
                          | Inr (k, st1) \<Rightarrow> Inr (Instruction lt k, st1)))))"

text \<open>
  \<^verbatim>\<open>icmp_signed\<close> and \<^verbatim>\<open>fcmp_ordered\<close>: the predicate is the comparison with its prefix
  (\<^verbatim>\<open>slt\<close>, \<^verbatim>\<open>olt\<close>, ...; equality of integers has none); the result is an \<^verbatim>\<open>i1\<close>.
\<close>

definition cmp_map :: "(string \<times> string) list" where
  "cmp_map = [(''=='', ''eq''), (''!='', ''ne''), (''<'', ''lt''), (''>'', ''gt''),
              (''<='', ''le''), (''>='', ''ge'')]"

definition icmp_signed :: "string \<Rightarrow> ir_value \<Rightarrow> ir_value \<Rightarrow> compiler \<Rightarrow> error + (ir_value \<times> compiler)" where
  "icmp_signed cmpop lhs rhs st =
     (case builder st of
        None \<Rightarrow> Inl AttributeError
      | Some _ \<Rightarrow>
          (case map_of cmp_map cmpop of
             None \<Rightarrow> Inl ValueError
           | Some p \<Rightarrow>
               (case type_of lhs of
                  Inl e \<Rightarrow> Inl e
                | Inr _ \<Rightarrow>
                    (case insert_instr
                            (ICmp (if cmpop \<in> set [''=='', ''!=''] then p else ''s'' @ p) lhs rhs) st of
                       Inl e \<Rightarrow> Inl e
                     | Inr (k, st1) \<Rightarrow> Inr (Instruction i1 k, st1)))))"

definition fcmp_ordered :: "string \<Rightarrow> ir_value \<Rightarrow> ir_value \<Rightarrow> compiler \<Rightarrow> error + (ir_value \<times> compiler)" where
  "fcmp_ordered cmpop lhs rhs st =
     (case builder st of
        None \<Rightarrow> Inl AttributeError
      | Some _ \<Rightarrow>
          (case map_of cmp_map cmpop of
             None \<Rightarrow> Inl ValueError
           | Some p \<Rightarrow>
               (case type_of lhs of
                  Inl e \<Rightarrow> Inl e
                | Inr _ \<Rightarrow>
                    (case insert_instr (FCmp (''o'' @ p) lhs rhs) st of
                       Inl e \<Rightarrow> Inl e
                     | Inr (k, st1) \<Rightarrow> Inr (Instruction i1 k, st1)))))"

text \<open>\<^verbatim>\<open>not_\<close> (here \<open>not_op\<close>) is an exclusive or with the constant \<^verbatim>\<open>-1\<close> of the operand's type.\<close>

definition not_op :: "ir_value \<Rightarrow> compiler \<Rightarrow> error + (ir_value \<times> compiler)" where
  "not_op v st =
     (case builder st of
        None \<Rightarrow> Inl AttributeError
      | Some _ \<Rightarrow>
          (case type_of v of
             Inl e \<Rightarrow> Inl e
           | Inr t \<Rightarrow> binop ''xor'' v (Constant t (IntConst (- 1))) st))"

text \<open>
  \<^verbatim>\<open>call\<close>: for each parameter of the function type the argument at that position must
  exist (\<^verbatim>\<open>IndexError\<close>) and have the parameter's type (\<^verbatim>\<open>TypeError\<close>); further arguments
  are not looked at. The result has the function's return type.
\<close>

fun check_args :: "ir_type list \<Rightarrow> ir_value list \<Rightarrow> error option" where
  "check_args [] args = None"
| "check_args (p # ps) [] = Some IndexError"
| "check_args (p # ps) (a # args) =
     (case type_of a of
        Inl e \<Rightarrow> Some e
      | Inr t \<Rightarrow> if t \<noteq> p then Some TypeError else check_args ps args)"

definition call :: "ir_value \<Rightarrow> ir_value list \<Rightarrow> compiler \<Rightarrow> error + (ir_value \<times> compiler)" where
  "call fn args st =
     (case builder st of
        None \<Rightarrow> Inl AttributeError
      | Some _ \<Rightarrow>
          (case fn of
             FunctionValue n (FunctionType rt params var_arg) \<Rightarrow>
               (case check_args params args of
                  Some e \<Rightarrow> Inl e
                | None \<Rightarrow>
                    (case insert_instr (CallInstr fn args) st of
                       Inl e \<Rightarrow> Inl e
                     | Inr (k, st1) \<Rightarrow> Inr (Instruction rt k, st1)))
           | _ \<Rightarrow> Inl AttributeError))"

definition bitcast :: "ir_value \<Rightarrow> ir_type \<Rightarrow> compiler \<Rightarrow> error + (ir_value \<times> compiler)" where
  "bitcast v typ st =
     (case insert_instr (Bitcast v typ) st of
        Inl e \<Rightarrow> Inl e
      | Inr (k, st1) \<Rightarrow> Inr (Instruction typ k, st1))"

text \<open>
  \<^verbatim>\<open>self.current_function.append_basic_block(name)\<close> returns the new block, here the
  reference to it; \<^verbatim>\<open>self.builder.position_at_end(block)\<close> moves the builder there.
\<close>

definition append_basic_block :: "string \<Rightarrow> compiler \<Rightarrow> error + ((nat \<times> nat) \<times> compiler)" where
  "append_basic_block n st =
     (case current_function st of
        None \<Rightarrow> Inl AttributeError
      | Some f \<Rightarrow>
          (if f < length (ir_functions st)
           then Inr ((f, length (blocks (ir_functions st ! f))),
                     st\<lparr>ir_functions :=
                          map_at f (\<lambda>fn. fn\<lparr>blocks := blocks fn @
                                       [\<lparr>label = n, instructions = [], terminator = None\<rparr>]\<rparr>)
                            (ir_functions st)\<rparr>)
           else Inl AttributeError))"

definition position_at_end :: "nat \<times> nat \<Rightarrow> compiler \<Rightarrow> error + compiler" where
  "position_at_end block st =
     (case builder st of
        None \<Rightarrow> Inl AttributeError
      | Some _ \<Rightarrow> Inr (st\<lparr>builder := Some block\<rparr>))"

text \<open>
  A global constant of the module, with internal linkage. Its name ends in the
  \<^verbatim>\<open>id(...)\<close> of a live object, which no other live object shares: a fresh number.
\<close>

definition add_global :: "string \<Rightarrow> nat \<Rightarrow> ir_type \<Rightarrow> const_value \<Rightarrow> compiler \<Rightarrow> ir_value \<times> compiler" where
  "add_global prefix k typ init st =
     (GlobalVariable typ prefix k, st\<lparr>globals := globals st @ [GlobalConstant prefix k typ init]\<rparr>)"


subsection \<open>Types\<close>

text \<open>
  \<^verbatim>\<open>get_llvm_type\<close>. An array type without element type has \<^verbatim>\<open>None\<close> there, and
  reading its \<^verbatim>\<open>kind\<close> raises \<^verbatim>\<open>AttributeError\<close>; \<^verbatim>\<open>as_pointer\<close> builds a pointer
  type, whose constructor asserts that the pointee is not \<^verbatim>\<open>void\<close>.
\<close>

definition as_pointer :: "ir_type \<Rightarrow> error + ir_type" where
  "as_pointer t = (if t = VoidType then Inl AssertionError else Inr (PointerType t))"

fun get_llvm_type :: "vtype \<Rightarrow> error + ir_type" where
  "get_llvm_type (Type k n e ps r g) =
     (if k = TK_INT then Inr i64
      else if k = TK_FLOAT then Inr f64
      else if k = TK_BOOL then Inr i1
      else if k = TK_VOID then Inr void
      else if k = TK_STRING then Inr i8_ptr
      else if k = TK_ARRAY then
        (case e of
           None \<Rightarrow> Inl AttributeError
         | Some t \<Rightarrow>
             (case get_llvm_type t of
                Inl err \<Rightarrow> Inl err
              | Inr elem_type \<Rightarrow> as_pointer elem_type))
      else Inr i64)"

subsection \<open>Expressions\<close>

text \<open>
  The arithmetic and comparison branches of \<^verbatim>\<open>compile_expression\<close> test
  \<^verbatim>\<open>left.type == self.f64\<close> and call the float or the integer operation.
\<close>

definition by_left_type ::
  "(ir_value \<Rightarrow> ir_value \<Rightarrow> compiler \<Rightarrow> error + (ir_value \<times> compiler)) \<Rightarrow>
   (ir_value \<Rightarrow> ir_value \<Rightarrow> compiler \<Rightarrow> error + (ir_value \<times> compiler)) \<Rightarrow>
   ir_value \<Rightarrow> ir_value \<Rightarrow> compiler \<Rightarrow> error + (ir_value \<times> compiler)" where
  "by_left_type float_op int_op left right st =
     (case type_of left of
        Inl e \<Rightarrow> Inl e
      | Inr t \<Rightarrow> if t = f64 then float_op left right st else int_op left right st)"

text \<open>
  The chain of operator tests of the \<^verbatim>\<open>BinaryOp\<close> branch, on the two operand values. An
  operator outside the chain leaves the branch and reaches the final
  \<^verbatim>\<open>return ir.Constant(self.i64, 0)\<close>.
\<close>

definition compile_binary_operator ::
  "string \<Rightarrow> ir_value \<Rightarrow> ir_value \<Rightarrow> compiler \<Rightarrow> error + (ir_value \<times> compiler)" where
  "compile_binary_operator operator left right st =
     (if operator = ''+'' then by_left_type (binop ''fadd'') (binop ''add'') left right st
      else if operator = ''-'' then by_left_type (binop ''fsub'') (binop ''sub'') left right st
      else if operator = ''*'' then by_left_type (binop ''fmul'') (binop ''mul'') left right st
      else if operator = ''/'' then by_left_type (binop ''fdiv'') (binop ''sdiv'') left right st
      else if operator = ''%'' then binop ''srem'' left right st
      else if operator = ''**'' then binop ''mul'' left right st
      else if operator \<in> set [''=='', ''!='', ''<'', ''>'', ''<='', ''>='']
        then by_left_type (fcmp_ordered operator) (icmp_signed operator) left right st
      else if operator = ''and'' then binop ''and'' left right st
      else if operator = ''or'' then binop ''or'' left right st
      else Inr (Constant i64 (IntConst 0), st))"

definition compile_unary_operator ::
  "string \<Rightarrow> ir_value \<Rightarrow> compiler \<Rightarrow> error + (ir_value \<times> compiler)" where
  "compile_unary_operator operator operand st =
     (if operator = ''-'' then
        (case type_of operand of
           Inl e \<Rightarrow> Inl e
         | Inr t \<Rightarrow>
             if t = f64 then binop ''fsub'' (Constant f64 (IntConst 0)) operand st
             else binop ''sub'' (Constant i64 (IntConst 0)) operand st)
      else if operator = ''not'' then not_op operand st
      else Inr (Constant i64 (IntConst 0), st))"

text \<open>
  \<^verbatim>\<open>str.encode('utf-8')\<close> on the code points below 256: one byte below 128, two bytes
  from there on.
\<close>

definition utf8_encode_char :: "char \<Rightarrow> string" where
  "utf8_encode_char c =
     (let n = (of_char c :: nat)
      in if n < 128 then [c] else [char_of (192 + n div 64), char_of (128 + n mod 64)])"

definition utf8_encode :: "string \<Rightarrow> string" where
  "utf8_encode s = concat (map utf8_encode_char s)"

text \<open>
  The end of \<^verbatim>\<open>compile_print\<close>, after the argument has been lowered: the format is chosen
  by the type of the value, stored as a global constant, and \<^verbatim>\<open>printf\<close> is called.
\<close>

definition print_value :: "ir_value \<Rightarrow> compiler \<Rightarrow> error + (ir_value \<times> compiler)" where
  "print_value arg st =
     (case type_of arg of
        Inl e \<Rightarrow> Inl e
      | Inr t \<Rightarrow>
          (let fmt = (if t = i64 \<or> t = i32 then ''%ld'' @ [CHR 0x0A, CHR 0x00]
                      else if t = f64 then ''%f'' @ [CHR 0x0A, CHR 0x00]
                      else ''%p'' @ [CHR 0x0A, CHR 0x00]);
               (fmt_global, st1) =
                  add_global ''fmt_'' (next_id st) (ArrayType (IntType 8) (length fmt))
                    (BytesConst (utf8_encode fmt)) (st\<lparr>next_id := next_id st + 1\<rparr>)
           in (case bitcast fmt_global i8_ptr st1 of
                 Inl e \<Rightarrow> Inl e
               | Inr (fmt_ptr, st2) \<Rightarrow> call printf [fmt_ptr, arg] st2)))"

text \<open>
  The special case of \<^verbatim>\<open>compile_print\<close> for a string literal: the global holds the
  bytes of the literal and of the newline in UTF-8, then a zero byte.
\<close>

definition print_string_literal :: "string \<Rightarrow> compiler \<Rightarrow> error + (ir_value \<times> compiler)" where
  "print_string_literal v st =
     (let string_value = v @ [CHR 0x0A];
          string_bytes = utf8_encode string_value @ [CHR 0x00];
          k = next_id st;
          (string_global, st1) =
             add_global ''str_'' k (ArrayType (IntType 8) (length string_bytes))
               (BytesConst string_bytes) (st\<lparr>next_id := next_id st + 1\<rparr>)
      in (case bitcast string_global i8_ptr st1 of
            Inl e \<Rightarrow> Inl e
          | Inr (string_ptr, st2) \<Rightarrow>
              (let fmt = ''%s'' @ [CHR 0x00];
                   (fmt_global, st3) =
                      add_global ''fmt_'' k (ArrayType (IntType 8) (length fmt))
                        (BytesConst (utf8_encode fmt)) st2
               in (case bitcast fmt_global i8_ptr st3 of
                     Inl e \<Rightarrow> Inl e
                   | Inr (fmt_ptr, st4) \<Rightarrow> call printf [fmt_ptr, string_ptr] st4))))"

text \<open>
  \<^verbatim>\<open>compile_expression\<close>, with \<^verbatim>\<open>compile_print\<close> and the list comprehension that lowers
  the arguments of a call. A node of a class without a branch (a string literal, an
  index access, an await, ...) is the constant \<^verbatim>\<open>0\<close> of type \<^verbatim>\<open>i64\<close> and emits
  nothing.
\<close>

fun compile_expression :: "ASTNode \<Rightarrow> compiler \<Rightarrow> error + (ir_value \<times> compiler)"
  and compile_arguments :: "ASTNode list \<Rightarrow> compiler \<Rightarrow> error + (ir_value list \<times> compiler)"
  and compile_print :: "ASTNode list \<Rightarrow> compiler \<Rightarrow> error + (ir_value \<times> compiler)"
where
  "compile_expression (NumberLiteral (IntNum v)) st = Inr (Constant i64 (IntConst v), st)"
| "compile_expression (NumberLiteral (FloatNum v)) st = Inr (Constant f64 (FloatConst v), st)"
| "compile_expression (BooleanLiteral v) st =
     Inr (Constant i1 (IntConst (if v then 1 else 0)), st)"
| "compile_expression (Identifier n) st =
     (case variables st n of
        None \<Rightarrow> Inl (NameError n)
      | Some ptr \<Rightarrow> load ptr n st)"
| "compile_expression (BinaryOp left operator right) st =
     (case compile_expression left st of
        Inl e \<Rightarrow> Inl e
      | Inr (l, st1) \<Rightarrow>
          (case compile_expression right st1 of
             Inl e \<Rightarrow> Inl e
           | Inr (r, st2) \<Rightarrow> compile_binary_operator operator l r st2))"
| "compile_expression (UnaryOp operator operand) st =
     (case compile_expression operand st of
        Inl e \<Rightarrow> Inl e
      | Inr (v, st1) \<Rightarrow> compile_unary_operator operator v st1)"
| "compile_expression (CallExpr (Identifier func_name) arguments) st =
     (if func_name = ''print'' then compile_print arguments st
      else
        (case functions_table st func_name of
           None \<Rightarrow> Inl (NameError func_name)
         | Some func \<Rightarrow>
             (case compile_arguments arguments st of
                Inl e \<Rightarrow> Inl e
              | Inr (args, st1) \<Rightarrow> call func args st1)))"
| "compile_expression _ st = Inr (Constant i64 (IntConst 0), st)"
| "compile_arguments [] st = Inr ([], st)"
| "compile_arguments (arg # rest) st =
     (case compile_expression arg st of
        Inl e \<Rightarrow> Inl e
      | Inr (v, st1) \<Rightarrow>
          (case compile_arguments rest st1 of
             Inl e \<Rightarrow> Inl e
           | Inr (vs, st2) \<Rightarrow> Inr (v # vs, st2)))"
| "compile_print [] st = Inr (NoneValue, st)"
| "compile_print (StringLiteral v # rest) st = print_string_literal v st"
| "compile_print (arg # rest) st =
     (case compile_expression arg st of
        Inl e \<Rightarrow> Inl e
      | Inr (v, st1) \<Rightarrow> print_value v st1)"

subsection \<open>Statements\<close>

text \<open>
  The loop of \<^verbatim>\<open>compile_function\<close> over the parameters: a stack slot for each, the
  incoming argument stored into it, and the slot entered in \<^verbatim>\<open>self.variables\<close>.
\<close>

fun compile_parameters :: "(string \<times> string) list \<Rightarrow> compiler \<Rightarrow> error + compiler" where
  "compile_parameters [] st = Inr st"
| "compile_parameters ((param_name, t) # rest) st =
     (case alloca i64 param_name st of
        Inl e \<Rightarrow> Inl e
      | Inr (ptr, st1) \<Rightarrow>
          (case store (Argument i64 param_name) ptr st1 of
             Inl e \<Rightarrow> Inl e
           | Inr st2 \<Rightarrow>
               compile_parameters rest (st2\<lparr>variables := (variables st2)(param_name \<mapsto> ptr)\<rparr>)))"

text \<open>
  The start of \<^verbatim>\<open>compile_function\<close>: every parameter has the type \<^verbatim>\<open>i64\<close>, the return
  type is \<^verbatim>\<open>i64\<close> for \<^verbatim>\<open>int\<close> and \<^verbatim>\<open>void\<close> otherwise. Creating a function under a name the
  module already has raises \<^verbatim>\<open>DuplicatedNameError\<close>. The function gets its entry block,
  the builder is placed there, and the function is registered in \<^verbatim>\<open>self.functions\<close>.
\<close>

definition function_return_type :: "string \<Rightarrow> ir_type" where
  "function_return_type ret_str = (if ret_str = ''int'' then i64 else void)"

definition begin_function :: "string \<Rightarrow> (string \<times> string) list \<Rightarrow> string \<Rightarrow> compiler \<Rightarrow> error + compiler" where
  "begin_function fname parameters ret_str st =
     (let func_type = FunctionType (function_return_type ret_str)
                        (map (\<lambda>_. i64) parameters) False;
          llvm_func = FunctionValue fname func_type
      in if fname \<in> set (declared st) then Inl (DuplicatedNameError fname)
         else Inr (st\<lparr>declared := declared st @ [fname],
                       ir_functions := ir_functions st @
                         [\<lparr>fn_name = fname, fn_type = func_type,
                           blocks = [\<lparr>label = ''entry'', instructions = [], terminator = None\<rparr>]\<rparr>],
                       builder := Some (length (ir_functions st), 0),
                       current_function := Some (length (ir_functions st)),
                       functions_table := (functions_table st)(fname \<mapsto> llvm_func)\<rparr>))"

text \<open>
  The end of \<^verbatim>\<open>compile_function\<close>: a return is added when the builder's block has no
  terminator, then builder and current function are reset to \<^verbatim>\<open>None\<close>.
\<close>

definition end_function :: "string \<Rightarrow> compiler \<Rightarrow> error + compiler" where
  "end_function ret_str st =
     (case block_is_terminated st of
        Inl e \<Rightarrow> Inl e
      | Inr terminated \<Rightarrow>
          (case (if \<not> terminated then
                   (if function_return_type ret_str = void then ret_void st
                    else ret (Constant (function_return_type ret_str) (IntConst 0)) st)
                 else Inr st) of
             Inl e \<Rightarrow> Inl e
           | Inr st1 \<Rightarrow> Inr (st1\<lparr>builder := None, current_function := None\<rparr>)))"

text \<open>\<^verbatim>\<open>if not self.builder.block.is_terminated: self.builder.branch(target)\<close>.\<close>

definition branch_if_open :: "nat \<times> nat \<Rightarrow> compiler \<Rightarrow> error + compiler" where
  "branch_if_open target st =
     (case block_is_terminated st of
        Inl e \<Rightarrow> Inl e
      | Inr terminated \<Rightarrow> if \<not> terminated then branch target st else Inr st)"

text \<open>
  \<^verbatim>\<open>compile_statement\<close> with the functions it dispatches to (\<^verbatim>\<open>compile_function\<close>,
  \<^verbatim>\<open>compile_var_declaration\<close>, \<^verbatim>\<open>compile_return\<close>, \<^verbatim>\<open>compile_if\<close>, \<^verbatim>\<open>compile_while\<close>,
  \<^verbatim>\<open>compile_for\<close>, \<^verbatim>\<open>compile_assignment\<close>, \<^verbatim>\<open>compile_block\<close>), one equation per class. A
  node of any other class (a parallel block, a break, ...) lowers to nothing.
\<close>

fun compile_statement :: "ASTNode \<Rightarrow> compiler \<Rightarrow> error + compiler"
  and compile_block :: "ASTNode list \<Rightarrow> compiler \<Rightarrow> error + compiler"
where
  "compile_statement (FunctionDeclaration fname parameters ret_str body is_async) st =
     (case begin_function fname parameters ret_str st of
        Inl e \<Rightarrow> Inl e
      | Inr st1 \<Rightarrow>
          (case compile_parameters parameters st1 of
             Inl e \<Rightarrow> Inl e
           | Inr st2 \<Rightarrow>
               (case body of
                  None \<Rightarrow> Inl AttributeError
                | Some statements \<Rightarrow>
                    (case compile_block statements st2 of
                       Inl e \<Rightarrow> Inl e
                     | Inr st3 \<Rightarrow> end_function ret_str st3))))"
| "compile_statement (VarDeclaration n var_type initializer is_const) st =
     (case builder st of
        None \<Rightarrow> Inr st
      | Some _ \<Rightarrow>
          (case alloca i64 n st of
             Inl e \<Rightarrow> Inl e
           | Inr (ptr, st1) \<Rightarrow>
               (case initializer of
                  None \<Rightarrow> Inr (st1\<lparr>variables := (variables st1)(n \<mapsto> ptr)\<rparr>)
                | Some init \<Rightarrow>
                    (case compile_expression init st1 of
                       Inl e \<Rightarrow> Inl e
                     | Inr (v, st2) \<Rightarrow>
                         (case store v ptr st2 of
                            Inl e \<Rightarrow> Inl e
                          | Inr st3 \<Rightarrow> Inr (st3\<lparr>variables := (variables st3)(n \<mapsto> ptr)\<rparr>))))))"
| "compile_statement (ExpressionStatement expression) st =
     map_sum id snd (compile_expression expression st)"
| "compile_statement (ReturnStatement (Some v)) st =
     (case compile_expression v st of
        Inl e \<Rightarrow> Inl e
      | Inr (val, st1) \<Rightarrow> ret val st1)"
| "compile_statement (ReturnStatement None) st = ret_void st"
| "compile_statement (IfStatement condition then_branch None) st =
     (case compile_expression condition st of
        Inl e \<Rightarrow> Inl e
      | Inr (cond, st1) \<Rightarrow>
     (case append_basic_block ''if.then'' st1 of
        Inl e \<Rightarrow> Inl e
      | Inr (then_block, st2) \<Rightarrow>
     (case append_basic_block ''if.end'' st2 of
        Inl e \<Rightarrow> Inl e
      | Inr (merge_block, st3) \<Rightarrow>
     (case cbranch cond then_block merge_block st3 of
        Inl e \<Rightarrow> Inl e
      | Inr st4 \<Rightarrow>
     (case position_at_end then_block st4 of
        Inl e \<Rightarrow> Inl e
      | Inr st5 \<Rightarrow>
     (case compile_statement then_branch st5 of
        Inl e \<Rightarrow> Inl e
      | Inr st6 \<Rightarrow>
     (case branch_if_open merge_block st6 of
        Inl e \<Rightarrow> Inl e
      | Inr st7 \<Rightarrow> position_at_end merge_block st7)))))))"
| "compile_statement (IfStatement condition then_branch (Some else_branch)) st =
     (case compile_expression condition st of
        Inl e \<Rightarrow> Inl e
      | Inr (cond, st1) \<Rightarrow>
     (case append_basic_block ''if.then'' st1 of
        Inl e \<Rightarrow> Inl e
      | Inr (then_block, st2) \<Rightarrow>
     (case append_basic_block ''if.else'' st2 of
        Inl e \<Rightarrow> Inl e
      | Inr (else_block, st2') \<Rightarrow>
     (case append_basic_block ''if.end'' st2' of
        Inl e \<Rightarrow> Inl e
      | Inr (merge_block, st3) \<Rightarrow>
     (case cbranch cond then_block else_block st3 of
        Inl e \<Rightarrow> Inl e
      | Inr st4 \<Rightarrow>
     (case position_at_end then_block st4 of
        Inl e \<Rightarrow> Inl e
      | Inr st5 \<Rightarrow>
     (case compile_statement then_branch st5 of
        Inl e \<Rightarrow> Inl e
      | Inr st6 \<Rightarrow>
     (case branch_if_open merge_block st6 of
        Inl e \<Rightarrow> Inl e
      | Inr st7 \<Rightarrow>
     (case position_at_end else_block st7 of
        Inl e \<Rightarrow> Inl e
      | Inr st8 \<Rightarrow>
     (case compile_statement else_branch st8 of
        Inl e \<Rightarrow> Inl e
      | Inr st9 \<Rightarrow>
     (case branch_if_open merge_block st9 of
        Inl e \<Rightarrow> Inl e
      | Inr st10 \<Rightarrow> position_at_end merge_block st10)))))))))))"
| "compile_statement (WhileStatement condition body) st =
     (case append_basic_block ''while.cond'' st of
        Inl e \<Rightarrow> Inl e
      | Inr (cond_block, st1) \<Rightarrow>
     (case append_basic_block ''while.body'' st1 of
        Inl e \<Rightarrow> Inl e
      | Inr (body_block, st2) \<Rightarrow>
     (case append_basic_block ''while.end'' st2 of
        Inl e \<Rightarrow> Inl e
      | Inr (end_block, st3) \<Rightarrow>
     (case branch cond_block st3 of
        Inl e \<Rightarrow> Inl e
      | Inr st4 \<Rightarrow>
     (case position_at_end cond_block st4 of
        Inl e \<Rightarrow> Inl e
      | Inr st5 \<Rightarrow>
     (case compile_expression condition st5 of
        Inl e \<Rightarrow> Inl e
      | Inr (cond, st6) \<Rightarrow>
     (case cbranch cond body_block end_block st6 of
        Inl e \<Rightarrow> Inl e
      | Inr st7 \<Rightarrow>
     (case position_at_end body_block st7 of
        Inl e \<Rightarrow> Inl e
      | Inr st8 \<Rightarrow>
     (case compile_statement body st8 of
        Inl e \<Rightarrow> Inl e
      | Inr st9 \<Rightarrow>
     (case branch_if_open cond_block st9 of
        Inl e \<Rightarrow> Inl e
      | Inr st10 \<Rightarrow> position_at_end end_block st10))))))))))"
| "compile_statement (ForStatement variable iterable body) st = Inr st"
| "compile_statement (AssignmentStatement (Identifier var_name) val operator) st =
     (case variables st var_name of
        None \<Rightarrow> Inl (NameError var_name)
      | Some _ \<Rightarrow>
          (case compile_expression val st of
             Inl e \<Rightarrow> Inl e
           | Inr (v, st1) \<Rightarrow>
               (case variables st1 var_name of
                  None \<Rightarrow> Inl KeyError
                | Some ptr \<Rightarrow> store v ptr st1)))"
| "compile_statement (AssignmentStatement target val operator) st = Inl NotImplementedError"
| "compile_statement (Block statements) st = compile_block statements st"
| "compile_statement _ st = Inr st"
| "compile_block [] st = Inr st"
| "compile_block (stmt # stmts) st =
     (case compile_statement stmt st of
        Inl e \<Rightarrow> Inl e
      | Inr st1 \<Rightarrow> compile_block stmts st1)"

text \<open>
  \<^verbatim>\<open>str(self.module)\<close> prints every instruction with the type and the name of each of
  its operands, and raises \<^verbatim>\<open>AttributeError\<close> on an operand that is \<^verbatim>\<open>None\<close>. The
  builder lets \<^verbatim>\<open>None\<close> through as the right operand of a comparison, as the condition of
  a conditional branch and as an argument of a call beyond the parameters of the callee;
  a \<^verbatim>\<open>ret\<close> of \<^verbatim>\<open>None\<close> has no operand. The text printed is a function of the module,
  which stands for it here.
\<close>

fun printed_operands :: "instr \<Rightarrow> ir_value list" where
  "printed_operands (Alloca t n) = []"
| "printed_operands (Store v p) = [v, p]"
| "printed_operands (Load p n) = [p]"
| "printed_operands (BinOp opname l r) = [l, r]"
| "printed_operands (ICmp p l r) = [l, r]"
| "printed_operands (FCmp p l r) = [l, r]"
| "printed_operands (CallInstr f args) = f # args"
| "printed_operands (Bitcast v t) = [v]"
| "printed_operands (Ret v) = (if v = NoneValue then [] else [v])"
| "printed_operands RetVoid = []"
| "printed_operands (Branch b) = []"
| "printed_operands (CBranch c t e) = [c]"

definition module_instructions :: "compiler \<Rightarrow> instr list" where
  "module_instructions st =
     concat (map (\<lambda>fn. concat (map (\<lambda>blk. map snd (instructions blk)) (blocks fn)))
               (ir_functions st))"

definition module_str :: "compiler \<Rightarrow> error + compiler" where
  "module_str st =
     (if list_ex (\<lambda>i. NoneValue \<in> set (printed_operands i)) (module_instructions st)
      then Inl AttributeError else Inr st)"

text \<open>
  \<^verbatim>\<open>compile_program\<close> on a fresh \<^verbatim>\<open>LLVMCompiler()\<close>: the statements are lowered in order
  and the module is printed.
\<close>

definition compile_program :: "ASTNode list \<Rightarrow> error + compiler" where
  "compile_program statements =
     (case compile_block statements LLVMCompiler of
        Inl e \<Rightarrow> Inl e
      | Inr st \<Rightarrow> module_str st)"

subsection \<open>Evaluating the lowerer on a concrete program\<close>

lemmas lowerer_eval =
  compile_program_def LLVMCompiler_def begin_function_def end_function_def
  function_return_type_def branch_if_open_def insert_instr_def set_terminator_def
  block_is_terminated_def is_terminated_def block_at_def update_block_def map_at_def
  ret_def ret_void_def branch_def cbranch_def alloca_def store_def load_def binop_def
  icmp_signed_def fcmp_ordered_def cmp_map_def not_op_def call_def bitcast_def
  append_basic_block_def position_at_end_def add_global_def by_left_type_def
  compile_binary_operator_def compile_unary_operator_def print_value_def
  print_string_literal_def printf_def ir_type_defs module_str_def
  module_instructions_def utf8_encode_def utf8_encode_char_def as_pointer_def Let_def


section \<open>The type checker: properties\<close>

subsection \<open>Assignability\<close>

text \<open>
  Claim C3. \<^verbatim>\<open>can_assign(target, source)\<close> is true exactly when the target is
  \<^verbatim>\<open>auto\<close>, or target and source are equal under \<^verbatim>\<open>Type.__eq__\<close>, or the source is
  \<^verbatim>\<open>null\<close> and the target's kind is class, str or array, or the target is float and the
  source is int; in every other case it is false.
\<close>

theorem can_assign_iff:
  "can_assign tgt src =
     (kind tgt = TK_AUTO
      \<or> type_eq tgt src
      \<or> (kind src = TK_NULL \<and> (kind tgt = TK_CLASS \<or> kind tgt = TK_STRING \<or> kind tgt = TK_ARRAY))
      \<or> (kind tgt = TK_FLOAT \<and> kind src = TK_INT))"
  by (auto simp: can_assign_def)


section \<open>The lexer: properties\<close>

text \<open>
  Claim C4. A string literal whose closing quote is missing should make the lexer fail.
  In the source the loop of \<^verbatim>\<open>read_string\<close> also ends at the end of the input, and the
  statement after it (commented \<^verbatim>\<open>Skip closing quote\<close>) runs all the same: the lexer
  returns a \<^verbatim>\<open>STRING\<close> token made of the rest of the input, followed by \<^verbatim>\<open>EOF\<close>.
  Here on the four characters \<^verbatim>\<open>"abc\<close>.
\<close>

theorem tokenize_unterminated_string:
  "tokenize [CHR 0x22, CHR ''a'', CHR ''b'', CHR ''c''] =
     Inr [Token TT_STRING (StrVal ''abc'') 1 1, Token TT_EOF NoneVal 1 6]"
  by (simp add: lexer_eval)

text \<open>
  When the unterminated literal ends in a backslash the lexer does raise, but a
  \<^verbatim>\<open>TypeError\<close> from the string concatenation, not a lexical error.
\<close>

lemma tokenize_trailing_backslash:
  "tokenize [CHR 0x22, CHR ''a'', CHR 0x5C] = Inl TypeError"
  by (simp add: lexer_eval)

text \<open>
  Claim C5, as stated: an integer literal above \<open>2^63\<close> is rejected by
  \<^verbatim>\<open>read_number\<close>. It is not: the literal \<open>2^63 + 1\<close> is read as a \<^verbatim>\<open>NUMBER\<close> token with
  that value.
\<close>

theorem read_number_above_2_63:
  "(2::int) ^ 63 < 9223372036854775809 \<and>
   tokenize ''9223372036854775809'' =
     Inr [Token TT_NUMBER (IntVal 9223372036854775809) 1 1, Token TT_EOF NoneVal 1 20]"
  by (simp add: lexer_eval)

text \<open>
  Claim C5, amended: \<^verbatim>\<open>read_number\<close> has no bound on the value. At the start of a run
  \<open>ds\<close> of the digits \<^verbatim>\<open>0\<close> to \<^verbatim>\<open>9\<close> that is followed by the end of the source or by a
  character that is neither a digit for \<^verbatim>\<open>str.isdigit\<close> nor a dot, it returns a \<^verbatim>\<open>NUMBER\<close>
  token carrying the decimal value of \<open>ds\<close>, whatever its size, and leaves the lexer just
  after the run. (The bound of 4300 digits is the default limit of CPython 3.11 on
  \<^verbatim>\<open>int(str)\<close>; older interpreters have none.)
\<close>

theorem read_number_integer:
  assumes "ds \<noteq> []" and "list_all isdecimal ds" and "length ds \<le> 4300"
    and "source L = pre @ ds @ rest" and "pos L = length pre"
    and "rest = [] \<or> (\<not> isdigit (hd rest) \<and> hd rest \<noteq> CHR ''.'')"
  shows "read_number L =
           Inr (Token TT_NUMBER (IntVal (decimal ds)) (line L) (column L),
                (advance ^^ length ds) L)"
proof -
  from assms(2) have "list_all isdigit ds"
    by (simp add: list_all_iff isdecimal_isdigit)
  from read_number_loop_digits [OF this assms(4,5,6), of "[]" False] assms(1,2,3)
  show ?thesis by (simp add: read_number_def py_int_def)
qed

text \<open>The amended claim C5 at the literal \<open>2^63 + 1\<close>, all of whose hypotheses hold.\<close>

theorem read_number_integer_witness:
  "read_number (Lexer ''9223372036854775809'') =
     Inr (Token TT_NUMBER (IntVal 9223372036854775809) 1 1,
          \<lparr>source = ''9223372036854775809'', pos = 19, line = 1, column = 20, tokens = []\<rparr>)"
proof -
  let ?ds = "''9223372036854775809''"
  have "read_number (Lexer ?ds) =
          Inr (Token TT_NUMBER (IntVal (decimal ?ds)) (line (Lexer ?ds)) (column (Lexer ?ds)),
               (advance ^^ length ?ds) (Lexer ?ds))"
    by (rule read_number_integer [where pre = "[]" and rest = "[]"])
       (simp_all add: Lexer_def isdecimal_def)
  then show ?thesis
    by (simp add: Lexer_def decimal_def advance_def)
qed

text \<open>
  The two ways in which \<^verbatim>\<open>read_number\<close> does reject a run without a dot, neither of them
  a bound on the value: a run that \<^verbatim>\<open>str.isdigit\<close> accepts and \<^verbatim>\<open>int\<close> does not (a
  superscript digit in it), and a run of more than 4300 digits. Both raise \<^verbatim>\<open>ValueError\<close>.
\<close>

lemma read_number_superscript:
  "tokenize [CHR ''1'', CHR ''2'', CHR 0xB2] = Inl ValueError"
  by (simp add: lexer_eval)

lemma read_number_over_4300_digits:
  assumes "list_all isdigit ds" and "4300 < length ds"
    and "source L = pre @ ds @ rest" and "pos L = length pre"
    and "rest = [] \<or> (\<not> isdigit (hd rest) \<and> hd rest \<noteq> CHR ''.'')"
  shows "read_number L = Inl ValueError"
  using read_number_loop_digits [OF assms(1,3,4,5), of "[]" False] assms(2)
  by (simp add: read_number_def py_int_def)


text \<open>
  The verdict of \<^verbatim>\<open>check_program\<close> is that the error list is empty, and
  \<^verbatim>\<open>infer_type\<close> never removes an error.
\<close>

lemma check_program_verdict:
  "check_program statements c = Inr (ok, c') \<Longrightarrow> ok = (errors c' = [])"
  by (auto simp: check_program_def split: sum.splits)



section \<open>The lowerer: properties\<close>

text \<open>
  The state of the lowerer at the start of the body of a function \<^verbatim>\<open>f\<close> without
  parameters, first in its module: the builder is in the empty entry block.
\<close>

definition in_entry_block :: compiler where
  "in_entry_block =
     \<lparr>declared = [''printf'', ''malloc'', ''free'', ''f''],
      ir_functions =
        [\<lparr>fn_name = ''f'', fn_type = FunctionType VoidType [] False,
          blocks = [\<lparr>label = ''entry'', instructions = [], terminator = None\<rparr>]\<rparr>],
      globals = [], builder = Some (0, 0), variables = Map.empty,
      functions_table = [''f'' \<mapsto> FunctionValue ''f'' (FunctionType VoidType [] False)],
      current_function = Some 0, next_id = 0\<rparr>"

lemma begin_function_in_entry_block:
  "begin_function ''f'' [] ''void'' LLVMCompiler = Inr in_entry_block"
  by (simp add: lowerer_eval in_entry_block_def)

lemma type_of_Inl: "type_of v = Inl e \<Longrightarrow> e = AttributeError \<and> v = NoneValue"
  by (cases v) auto

subsection \<open>Parallel blocks and await\<close>

text \<open>
  Claim C6, as stated: a parallel block lowers like its tasks in sequence, and
  \<^verbatim>\<open>await e\<close> like \<^verbatim>\<open>e\<close>. In a function \<^verbatim>\<open>f(a: int)\<close>, the body \<^verbatim>\<open>parallel { a }\<close> emits
  nothing where the statement \<^verbatim>\<open>a\<close> emits a load; \<^verbatim>\<open>return await a\<close> returns the constant
  \<^verbatim>\<open>0\<close> where \<^verbatim>\<open>return a\<close> loads \<^verbatim>\<open>a\<close> and returns it.
\<close>

theorem parallel_and_await_not_transparent:
  "map_sum id ir_functions (compile_program
      [FunctionDeclaration ''f'' [(''a'', ''int'')] ''void''
         (Some [ParallelBlock [Identifier ''a'']]) False])
     = Inr [\<lparr>fn_name = ''f'', fn_type = FunctionType VoidType [IntType 64] False,
             blocks = [\<lparr>label = ''entry'',
                        instructions =
                          [(0, Alloca (IntType 64) ''a''),
                           (1, Store (Argument (IntType 64) ''a'')
                                 (Instruction (PointerType (IntType 64)) 0)),
                           (2, RetVoid)],
                        terminator = Some RetVoid\<rparr>]\<rparr>]
   \<and> map_sum id ir_functions (compile_program
      [FunctionDeclaration ''f'' [(''a'', ''int'')] ''void''
         (Some [ExpressionStatement (Identifier ''a'')]) False])
     = Inr [\<lparr>fn_name = ''f'', fn_type = FunctionType VoidType [IntType 64] False,
             blocks = [\<lparr>label = ''entry'',
                        instructions =
                          [(0, Alloca (IntType 64) ''a''),
                           (1, Store (Argument (IntType 64) ''a'')
                                 (Instruction (PointerType (IntType 64)) 0)),
                           (2, Load (Instruction (PointerType (IntType 64)) 0) ''a''),
                           (3, RetVoid)],
                        terminator = Some RetVoid\<rparr>]\<rparr>]
   \<and> map_sum id ir_functions (compile_program
      [FunctionDeclaration ''f'' [(''a'', ''int'')] ''int''
         (Some [ReturnStatement (Some (AsyncAwait (Identifier ''a'')))]) False])
     = Inr [\<lparr>fn_name = ''f'', fn_type = FunctionType (IntType 64) [IntType 64] False,
             blocks = [\<lparr>label = ''entry'',
                        instructions =
                          [(0, Alloca (IntType 64) ''a''),
                           (1, Store (Argument (IntType 64) ''a'')
                                 (Instruction (PointerType (IntType 64)) 0)),
                           (2, Ret (Constant (IntType 64) (IntConst 0)))],
                        terminator = Some (Ret (Constant (IntType 64) (IntConst 0)))\<rparr>]\<rparr>]
   \<and> map_sum id ir_functions (compile_program
      [FunctionDeclaration ''f'' [(''a'', ''int'')] ''int''
         (Some [ReturnStatement (Some (Identifier ''a''))]) False])
     = Inr [\<lparr>fn_name = ''f'', fn_type = FunctionType (IntType 64) [IntType 64] False,
             blocks = [\<lparr>label = ''entry'',
                        instructions =
                          [(0, Alloca (IntType 64) ''a''),
                           (1, Store (Argument (IntType 64) ''a'')
                                 (Instruction (PointerType (IntType 64)) 0)),
                           (2, Load (Instruction (PointerType (IntType 64)) 0) ''a''),
                           (3, Ret (Instruction (IntType 64) 2))],
                        terminator = Some (Ret (Instruction (IntType 64) 2))\<rparr>]\<rparr>]"
  by (simp add: lowerer_eval)

text \<open>
  Claim C6, amended: \<^verbatim>\<open>compile_statement\<close> has no branch for a parallel block and
  \<^verbatim>\<open>compile_expression\<close> none for an await. A parallel block lowers to nothing (its
  tasks are not lowered, the state of the lowerer is unchanged), and \<^verbatim>\<open>await e\<close> lowers
  to the constant \<^verbatim>\<open>0\<close> of type \<^verbatim>\<open>i64\<close> without lowering \<^verbatim>\<open>e\<close>.
\<close>

theorem parallel_and_await_lower_to_nothing:
  "compile_statement (ParallelBlock tasks) st = Inr st
   \<and> compile_expression (AsyncAwait e) st = Inr (Constant i64 (IntConst 0), st)"
  by simp

text \<open>The amended claim C6 on the task \<^verbatim>\<open>a\<close> and on \<^verbatim>\<open>await a\<close>, at the start of a function.\<close>

theorem parallel_and_await_lower_to_nothing_witness:
  "compile_statement (ParallelBlock [Identifier ''a'']) in_entry_block = Inr in_entry_block
   \<and> compile_expression (AsyncAwait (Identifier ''a'')) in_entry_block
       = Inr (Constant i64 (IntConst 0), in_entry_block)"
  using parallel_and_await_lower_to_nothing [of "[Identifier ''a'']" in_entry_block "Identifier ''a''"]
  by simp

subsection \<open>Exponentiation\<close>

text \<open>
  Claim C7, as stated: \<^verbatim>\<open>a ** b\<close> lowers to the same instruction as \<^verbatim>\<open>a * b\<close>. For two
  float literals \<^verbatim>\<open>1.5 ** 2.0\<close> is the integer instruction \<^verbatim>\<open>mul\<close> (on two doubles), and
  \<^verbatim>\<open>1.5 * 2.0\<close> the float instruction \<^verbatim>\<open>fmul\<close>.
\<close>

theorem power_not_float_multiply:
  "map_sum id ir_functions (compile_program
      [FunctionDeclaration ''f'' [] ''void''
         (Some [ExpressionStatement
                  (BinaryOp (NumberLiteral (FloatNum ''1.5'')) ''**''
                            (NumberLiteral (FloatNum ''2.0'')))]) False])
     = Inr [\<lparr>fn_name = ''f'', fn_type = FunctionType VoidType [] False,
             blocks = [\<lparr>label = ''entry'',
                        instructions =
                          [(0, BinOp ''mul'' (Constant DoubleType (FloatConst ''1.5''))
                                 (Constant DoubleType (FloatConst ''2.0''))),
                           (1, RetVoid)],
                        terminator = Some RetVoid\<rparr>]\<rparr>]
   \<and> map_sum id ir_functions (compile_program
      [FunctionDeclaration ''f'' [] ''void''
         (Some [ExpressionStatement
                  (BinaryOp (NumberLiteral (FloatNum ''1.5'')) ''*''
                            (NumberLiteral (FloatNum ''2.0'')))]) False])
     = Inr [\<lparr>fn_name = ''f'', fn_type = FunctionType VoidType [] False,
             blocks = [\<lparr>label = ''entry'',
                        instructions =
                          [(0, BinOp ''fmul'' (Constant DoubleType (FloatConst ''1.5''))
                                 (Constant DoubleType (FloatConst ''2.0''))),
                           (1, RetVoid)],
                        terminator = Some RetVoid\<rparr>]\<rparr>]"
  by (simp add: lowerer_eval)

text \<open>
  Claim C7, amended: \<^verbatim>\<open>a ** b\<close> lowers both operands and emits the single integer
  multiply \<^verbatim>\<open>mul\<close> of the two values, whatever their types (no power routine, no float
  handling, no error of its own). That is what \<^verbatim>\<open>a * b\<close> lowers to whenever the value of
  the left operand is not of type \<^verbatim>\<open>f64\<close>; for an \<^verbatim>\<open>f64\<close> left operand \<^verbatim>\<open>a * b\<close> is
  \<^verbatim>\<open>fmul\<close>.
\<close>

theorem power_is_integer_multiply:
  "compile_expression (BinaryOp a ''**'' b) st =
     (case compile_expression a st of
        Inl e \<Rightarrow> Inl e
      | Inr (l, st1) \<Rightarrow>
          (case compile_expression b st1 of
             Inl e \<Rightarrow> Inl e
           | Inr (r, st2) \<Rightarrow> binop ''mul'' l r st2))
   \<and> ((\<forall>l st1. compile_expression a st = Inr (l, st1) \<longrightarrow> type_of l \<noteq> Inr f64)
        \<longrightarrow> compile_expression (BinaryOp a ''**'' b) st
            = compile_expression (BinaryOp a ''*'' b) st)"
  by (auto simp: compile_binary_operator_def by_left_type_def binop_def
           split: sum.splits prod.splits option.splits dest: type_of_Inl)

text \<open>The amended claim C7 on \<^verbatim>\<open>2 ** 3\<close>, whose left operand is an \<^verbatim>\<open>i64\<close> constant.\<close>

theorem power_is_integer_multiply_witness:
  "compile_expression (BinaryOp (NumberLiteral (IntNum 2)) ''**'' (NumberLiteral (IntNum 3)))
       in_entry_block
     = binop ''mul'' (Constant i64 (IntConst 2)) (Constant i64 (IntConst 3)) in_entry_block
   \<and> compile_expression (BinaryOp (NumberLiteral (IntNum 2)) ''**'' (NumberLiteral (IntNum 3)))
       in_entry_block
     = compile_expression (BinaryOp (NumberLiteral (IntNum 2)) ''*'' (NumberLiteral (IntNum 3)))
         in_entry_block"
  using power_is_integer_multiply
          [of "NumberLiteral (IntNum 2)" "NumberLiteral (IntNum 3)" in_entry_block]
  by (auto simp: i64_def f64_def)

subsection \<open>Compound assignment\<close>

text \<open>
  The checker after \<^verbatim>\<open>x\<close> has been declared an \<^verbatim>\<open>int\<close>, and the lowerer in the function
  \<^verbatim>\<open>f\<close> above after the declaration \<^verbatim>\<open>var x = 1\<close>: \<^verbatim>\<open>x\<close> has its slot, the result of
  instruction \<open>0\<close>.
\<close>

definition checker_with_x :: checker where
  "checker_with_x = define_variable ''x'' INT_TYPE TypeChecker"

definition after_var_x :: compiler where
  "after_var_x =
     \<lparr>declared = [''printf'', ''malloc'', ''free'', ''f''],
      ir_functions =
        [\<lparr>fn_name = ''f'', fn_type = FunctionType VoidType [] False,
          blocks = [\<lparr>label = ''entry'',
                     instructions =
                       [(0, Alloca (IntType 64) ''x''),
                        (1, Store (Constant (IntType 64) (IntConst 1))
                              (Instruction (PointerType (IntType 64)) 0))],
                     terminator = None\<rparr>]\<rparr>],
      globals = [], builder = Some (0, 0),
      variables = [''x'' \<mapsto> Instruction (PointerType (IntType 64)) 0],
      functions_table = [''f'' \<mapsto> FunctionValue ''f'' (FunctionType VoidType [] False)],
      current_function = Some 0, next_id = 2\<rparr>"

lemma checker_with_x:
  "check_statement (VarDeclaration ''x'' (Some ''int'') (Some (NumberLiteral (IntNum 1))) False)
     TypeChecker = Inr checker_with_x"
  by (simp add: checker_with_x_def TypeChecker_def define_variable_def error_def
        parse_type_string_def can_assign_def prim_type_defs)

lemma after_var_x:
  "compile_statement (VarDeclaration ''x'' (Some ''int'') (Some (NumberLiteral (IntNum 1))) False)
     in_entry_block = Inr after_var_x"
  by (simp add: lowerer_eval in_entry_block_def after_var_x_def)

text \<open>
  Claim C9: an assignment with the operator \<^verbatim>\<open>+=\<close> or \<^verbatim>\<open>-=\<close> (or any other) is checked and
  lowered exactly as with \<^verbatim>\<open>=\<close>. The checker infers the types of the target and of the
  value and makes the \<^verbatim>\<open>can_assign\<close> test on the two, recording an error when it fails;
  the lowerer lowers the right-hand side only and stores its value into the slot of the
  target, so the old value of the target is not read. The operator appears in neither.
\<close>

theorem assignment_operator_ignored:
  "check_statement (AssignmentStatement target val operator) c
     = (case infer_type target c of (target_type, c1) \<Rightarrow>
        (case infer_type val c1 of (value_type, c2) \<Rightarrow>
           if can_assign target_type value_type then Inr c2
           else Inr (error (CannotAssign value_type target_type) c2)))
   \<and> check_statement (AssignmentStatement target val operator) c
     = check_statement (AssignmentStatement target val ''='') c
   \<and> compile_statement (AssignmentStatement target val operator) st
     = compile_statement (AssignmentStatement target val ''='') st
   \<and> compile_statement (AssignmentStatement (Identifier x) val operator) st
     = (case variables st x of
          None \<Rightarrow> Inl (NameError x)
        | Some _ \<Rightarrow>
            (case compile_expression val st of
               Inl e \<Rightarrow> Inl e
             | Inr (v, st1) \<Rightarrow>
                 (case variables st1 x of
                    None \<Rightarrow> Inl KeyError
                  | Some ptr \<Rightarrow> store v ptr st1)))"
  by (cases target) (simp_all split: prod.splits)

text \<open>
  Claim C9 on a declared \<^verbatim>\<open>x\<close>. The checker rejects \<^verbatim>\<open>x += "a"\<close> for an \<^verbatim>\<open>int\<close> target:
  the \<^verbatim>\<open>can_assign\<close> test is made and its failure recorded. The lowerer turns \<^verbatim>\<open>x += 5\<close>
  into the one instruction that stores \<^verbatim>\<open>5\<close> into the slot of \<^verbatim>\<open>x\<close>, as it does for
  \<^verbatim>\<open>x = 5\<close>; no load of \<^verbatim>\<open>x\<close> and no addition is emitted.
\<close>

theorem assignment_operator_ignored_witness:
  "check_statement (AssignmentStatement (Identifier ''x'') (StringLiteral ''a'') ''+='')
       checker_with_x
     = Inr (checker_with_x\<lparr>errors := [CannotAssign STRING_TYPE INT_TYPE]\<rparr>)
   \<and> check_statement (AssignmentStatement (Identifier ''x'') (StringLiteral ''a'') ''+='')
       checker_with_x
     = check_statement (AssignmentStatement (Identifier ''x'') (StringLiteral ''a'') ''='')
         checker_with_x
   \<and> compile_statement (AssignmentStatement (Identifier ''x'') (NumberLiteral (IntNum 5)) ''+='')
       after_var_x
     = compile_statement (AssignmentStatement (Identifier ''x'') (NumberLiteral (IntNum 5)) ''='')
         after_var_x
   \<and> map_sum id ir_functions
       (compile_statement (AssignmentStatement (Identifier ''x'') (NumberLiteral (IntNum 5)) ''+='')
          after_var_x)
     = Inr [\<lparr>fn_name = ''f'', fn_type = FunctionType VoidType [] False,
             blocks = [\<lparr>label = ''entry'',
                        instructions =
                          [(0, Alloca (IntType 64) ''x''),
                           (1, Store (Constant (IntType 64) (IntConst 1))
                                 (Instruction (PointerType (IntType 64)) 0)),
                           (2, Store (Constant (IntType 64) (IntConst 5))
                                 (Instruction (PointerType (IntType 64)) 0))],
                        terminator = None\<rparr>]\<rparr>]"
  using assignment_operator_ignored
          [where target = "Identifier ''x''" and val = "StringLiteral ''a''"
             and operator = "''+=''" and c = checker_with_x and st = after_var_x
             and x = "''x''"]
        assignment_operator_ignored
          [where target = "Identifier ''x''" and val = "NumberLiteral (IntNum 5)"
             and operator = "''+=''" and c = checker_with_x and st = after_var_x
             and x = "''x''"]
  by (simp add: checker_with_x_def TypeChecker_def define_variable_def error_def
        scope_define_variable_def builtins_def can_assign_def prim_type_defs
        after_var_x_def lowerer_eval)

end
